theory Spec2Isabelle
  imports Main "HOL-Library.Char_ord" "HOL-Library.List_Lexorder" "HOL-Library.Sublist"
begin

section \<open>Option lists of the chat application: a model of OptionsListUtils.js\<close>

text \<open>
  The module builds the entries (``options'') of the search, new-chat, invite and sidebar
  lists from report and personal-detail snapshots. Strings are \<^typ>\<open>string\<close> (lists of
  8-bit characters; the source's strings are sequences of UTF-16 code units, and the two
  agree on ASCII text). A thrown \<open>TypeError\<close> is a value: every function that can read a
  property of \<open>undefined\<close> returns \<open>js_error + 'a\<close>.

  Functions keep their names. The fields of a personal detail, a report and an option
  carry the prefixes \<open>pd_\<close>, \<open>r_\<close> and \<open>o_\<close>. The module's variables are a record
  (\<open>onyx_state\<close>) and its imports are a record of functions and constants (\<open>deps\<close>), both
  passed to every function that uses them. \<open>getOptions\<close> is one long function; its parts
  are defined one by one, each with the lines it stands for.
\<close>

datatype js_error = TypeError

subsection \<open>JavaScript string primitives\<close>

text \<open>\<open>String.prototype.toLowerCase\<close>, on the ASCII letters.\<close>

definition toLowerChar :: "char \<Rightarrow> char" where
  "toLowerChar c =
     (case map_of (zip ''ABCDEFGHIJKLMNOPQRSTUVWXYZ'' ''abcdefghijklmnopqrstuvwxyz'') c of
        None \<Rightarrow> c
      | Some l \<Rightarrow> l)"

definition toLowerCase :: "string \<Rightarrow> string" where
  "toLowerCase s = map toLowerChar s"

text \<open>\<open>String.prototype.trim\<close>: white space and line terminators go from both ends
  (tab, line feed, vertical tab, form feed, carriage return, space).\<close>

definition isWhiteSpace :: "char \<Rightarrow> bool" where
  "isWhiteSpace c = (c \<in> {CHR '' '', CHR 0x09, CHR 0x0A, CHR 0x0B, CHR 0x0C, CHR 0x0D})"

definition trim :: "string \<Rightarrow> string" where
  "trim s = rev (dropWhile isWhiteSpace (rev (dropWhile isWhiteSpace s)))"

text \<open>\<open>s.split(sep)\<close> for a one-character separator: never the empty array
  (\<open>''.split(' ')\<close> is \<open>['']\<close>).\<close>

fun splitOn :: "char \<Rightarrow> string \<Rightarrow> string list" where
  "splitOn sep [] = [[]]"
| "splitOn sep (c # cs) =
     (if c = sep then [] # splitOn sep cs
      else (case splitOn sep cs of [] \<Rightarrow> [[c]] | w # ws \<Rightarrow> (c # w) # ws))"

text \<open>\<open>s.split('')\<close>: the characters of \<open>s\<close>, each a string.\<close>

definition splitChars :: "string \<Rightarrow> string list" where
  "splitChars s = map (\<lambda>c. [c]) s"

text \<open>\<open>xs.join(sep)\<close>.\<close>

fun join :: "string \<Rightarrow> string list \<Rightarrow> string" where
  "join sep [] = []"
| "join sep [x] = x"
| "join sep (x # y # zs) = x @ sep @ join sep (y # zs)"

text \<open>\<open>s.replace(/\./g, '')\<close> and \<open>s.replace(/,/g, ' ')\<close>.\<close>

definition removeDots :: "string \<Rightarrow> string" where
  "removeDots s = filter (\<lambda>c. c \<noteq> CHR ''.'') s"

definition commasToSpaces :: "string \<Rightarrow> string" where
  "commasToSpaces s = map (\<lambda>c. if c = CHR '','' then CHR '' '' else c) s"

text \<open>\<open>s.replace(new RegExp(/&nbsp;/g), '')\<close>: one pass from the left, every occurrence
  of the six characters removed; what the removal joins is not scanned again.\<close>

fun removeNbsp :: "string \<Rightarrow> string" where
  "removeNbsp [] = []"
| "removeNbsp (c # cs) =
     (if prefix ''&nbsp;'' (c # cs) then removeNbsp (drop 5 cs) else c # removeNbsp cs)"

text \<open>\<open>s.includes(w)\<close>: \<open>w\<close> occurs in \<open>s\<close> as a block.\<close>

fun stringIncludes :: "string \<Rightarrow> string \<Rightarrow> bool" where
  "stringIncludes [] w = (w = [])"
| "stringIncludes (c # cs) w = (prefix w (c # cs) \<or> stringIncludes cs w)"

text \<open>\<open>new RegExp(Str.escapeForRegExp(word), 'i').test(text)\<close>. \<open>Str.escapeForRegExp\<close>
  (expensify-common) escapes every character that is special in a pattern, so the
  pattern matches \<open>word\<close> literally; the flag \<open>i\<close> compares letters without case.\<close>

definition regExpTestIgnoreCase :: "string \<Rightarrow> string \<Rightarrow> bool" where
  "regExpTestIgnoreCase word text = stringIncludes (toLowerCase text) (toLowerCase word)"

subsection \<open>uniqFast (lines 152-164)\<close>

text \<open>
  \<open>seenItems\<close> is a plain object \<open>{}\<close> used as a dictionary: a map of its own
  properties. Its prototype is \<open>Object.prototype\<close>, so
  \<^item> reading a key it does not own gives the inherited property (a function such as
    \<open>constructor\<close>, or the prototype itself for \<open>__proto__\<close>) or \<open>undefined\<close>: never the
    number 1;
  \<^item> assigning to a key creates or overwrites an own property, except for the key
    \<open>__proto__\<close>: that assignment runs the setter of \<open>Object.prototype\<close>, which ignores a
    value that is neither an object nor null and creates no property.
\<close>

type_synonym js_object = "string \<rightharpoonup> nat"

definition isNotOne :: "js_object \<Rightarrow> string \<Rightarrow> bool" where
  \<comment> \<open>\<open>seenItems[item] !== 1\<close>\<close>
  "isNotOne obj k = (obj k \<noteq> Some 1)"

definition assign :: "js_object \<Rightarrow> string \<Rightarrow> nat \<Rightarrow> js_object" where
  \<comment> \<open>\<open>seenItems[item] = 1\<close>\<close>
  "assign obj k v = (if k = ''__proto__'' then obj else obj(k \<mapsto> v))"

text \<open>The \<open>for\<close> loop over \<open>items\<close>; \<open>result[j++] = item\<close> appends, since \<open>j\<close> is the
  length of \<open>result\<close> throughout.\<close>

fun uniqFastLoop :: "string list \<Rightarrow> js_object \<Rightarrow> string list \<Rightarrow> string list" where
  "uniqFastLoop [] seenItems result = result"
| "uniqFastLoop (item # items) seenItems result =
     (if isNotOne seenItems item
      then uniqFastLoop items (assign seenItems item 1) (result @ [item])
      else uniqFastLoop items seenItems result)"

definition uniqFast :: "string list \<Rightarrow> string list" where
  "uniqFast items = uniqFastLoop items Map.empty []"

text \<open>The array restricted to the first occurrence of each element, in order.\<close>

fun firstOccurrences :: "string list \<Rightarrow> string list \<Rightarrow> string list" where
  "firstOccurrences seen [] = []"
| "firstOccurrences seen (x # xs) =
     (if x \<in> set seen then firstOccurrences seen xs else x # firstOccurrences (x # seen) xs)"

subsection \<open>Records of the stores\<close>

text \<open>A personal detail, keyed by login in its store. A missing or empty name is the
  empty string (both are falsy).\<close>

record personal_detail =
  pd_login :: string
  pd_displayName :: string
  pd_firstName :: string
  pd_lastName :: string
  pd_avatar :: string
  pd_phoneNumber :: "string option"
  pd_payPalMeAddress :: "string option"

text \<open>A report. \<open>r_reportID\<close> is the identifier as \<open>String(reportID)\<close> prints it, \<open>None\<close>
  when the report has none; \<open>r_participants\<close> is \<open>report.participants || []\<close>. A flag
  that is missing is \<open>False\<close>; the name and the two times, the keys of the sorts, are
  there in every report. The chat type, the state and the policy are read by
  \<open>ReportUtils\<close> only.\<close>

record report =
  r_reportID :: "string option"
  r_participants :: "string list"
  r_reportName :: string
  r_chatType :: string
  r_stateNum :: nat
  r_statusNum :: nat
  r_policyID :: string
  r_isOwnPolicyExpenseChat :: bool
  r_ownerEmail :: "string option"
  r_unreadActionCount :: nat
  r_hasDraft :: bool
  r_isPinned :: bool
  r_iouReportID :: "string option"
  r_hasOutstandingIOU :: bool
  r_lastMessageText :: string
  r_lastMessageHtml :: string
  r_lastActorEmail :: string
  r_lastMessageTimestamp :: int
  r_lastVisitedTimestamp :: int
  r_errors :: "string list"
  r_errorFields :: "string list list"

record iou_report =
  iou_ownerEmail :: string
  iou_total :: int

record report_action =
  ra_errors :: "string list"
  ra_reason :: "string option"

text \<open>The module's variables, filled by the Onyx subscriptions (lines 20-78).
  \<open>currentUserLogin\<close> and \<open>loginList\<close> are \<open>undefined\<close> until their callbacks have run;
  \<open>loginList\<close> holds the \<open>partnerUserID\<close> of each login. \<open>policies\<close> is only handed to
  \<open>ReportUtils\<close>, whose functions below are taken with it applied.\<close>

record onyx_state =
  currentUserLogin :: "string option"
  loginList :: "string list option"
  countryCodeByIP :: string
  preferredLocale :: string
  iouReports :: "string \<rightharpoonup> iou_report"
  lastReportActions :: "string \<rightharpoonup> report_action"

text \<open>What the module imports: \<open>Str\<close> of expensify-common, and \<open>ReportUtils\<close>, \<open>Localize\<close>,
  \<open>Permissions\<close>, \<open>CONST\<close> and \<open>ONYXKEYS\<close> of the application. Their sources are not part
  of this file, so they are parameters of everything below.\<close>

record deps =
  Str_isValidPhone :: "string \<Rightarrow> bool"
  Str_isValidEmail :: "string \<Rightarrow> bool"
  Str_isDomainEmail :: "string \<Rightarrow> bool"
  Str_removeSMSDomain :: "string \<Rightarrow> string"
  Str_htmlDecode :: "string \<Rightarrow> string"
  ReportUtils_getDefaultAvatar :: "string \<Rightarrow> string"
  ReportUtils_isChatRoom :: "report \<Rightarrow> bool"
  ReportUtils_isArchivedRoom :: "report \<Rightarrow> bool"
  ReportUtils_isPolicyExpenseChat :: "report \<Rightarrow> bool"
  ReportUtils_isDefaultRoom :: "report \<Rightarrow> bool"
  ReportUtils_isUserCreatedPolicyRoom :: "report \<Rightarrow> bool"
  ReportUtils_isUnread :: "report \<Rightarrow> bool"
  ReportUtils_getChatRoomSubtitle :: "report \<Rightarrow> string"
  ReportUtils_getReportParticipantsTitle :: "string list \<Rightarrow> string"
  ReportUtils_isReportMessageAttachment :: "string \<Rightarrow> string \<Rightarrow> bool"
  ReportUtils_getPolicyName :: "report \<Rightarrow> string"
  ReportUtils_getPolicyType :: "report \<Rightarrow> string"
  ReportUtils_hasExpensifyGuidesEmails :: "string list \<Rightarrow> bool"
  ReportUtils_getReportName :: "report option \<Rightarrow> (string \<times> personal_detail) list \<Rightarrow> string"
  ReportUtils_getIcons ::
    "report option \<Rightarrow> (string \<times> personal_detail) list \<Rightarrow> string \<Rightarrow> string list"
  Localize_translate :: "string \<Rightarrow> string \<Rightarrow> string \<Rightarrow> string \<Rightarrow> string"
  Localize_translateLocal :: "string \<Rightarrow> string"
  Permissions_canUseDefaultRooms :: "string list \<Rightarrow> bool"
  Permissions_canUsePolicyRooms :: "string list \<Rightarrow> bool"
  Permissions_canUsePolicyExpenseChat :: "string list \<Rightarrow> bool"
  Permissions_canUseChronos :: "string list \<Rightarrow> bool"
  CONST_SMS_DOMAIN :: string
  CONST_EMAIL_CHRONOS :: string
  CONST_POLICY_TYPE_FREE :: string
  CONST_REPORT_ARCHIVE_REASON_DEFAULT :: string
  CONST_BRICK_ROAD_INDICATOR_STATUS_ERROR :: string
  ONYXKEYS_COLLECTION_REPORT_IOUS :: string
  ONYXKEYS_COLLECTION_REPORT_ACTIONS :: string

text \<open>The object \<open>createOption\<close> returns (lines 241-267 and the assignments after them).
  A property that may be \<open>null\<close> or \<open>undefined\<close> on return is an \<open>option\<close>, and so is
  \<open>searchText\<close>, which line 372 reads as a value that may be \<open>null\<close>.
  \<open>o_isDefaultRoom\<close> is the property \<open>isDefaultRoom\<close> that line 588 reads: \<open>None\<close> is
  \<open>undefined\<close>, the value of a property the object does not have.\<close>

record report_option =
  o_text :: string
  o_alternateText :: "string option"
  o_brickRoadIndicator :: "string option"
  o_icons :: "string list"
  o_tooltipText :: "string option"
  o_ownerEmail :: "string option"
  o_subtitle :: "string option"
  o_participantsList :: "personal_detail list"
  o_login :: "string option"
  o_reportID :: "string option"
  o_phoneNumber :: "string option"
  o_payPalMeAddress :: "string option"
  o_isUnread :: "bool option"
  o_hasDraftComment :: bool
  o_keyForList :: "string option"
  o_searchText :: "string option"
  o_isPinned :: bool
  o_hasOutstandingIOU :: bool
  o_iouReportID :: "string option"
  o_isIOUReportOwner :: "bool option"
  o_iouReportAmount :: int
  o_isChatRoom :: bool
  o_isArchivedRoom :: bool
  o_shouldShowSubscript :: bool
  o_isPolicyExpenseChat :: bool
  o_isDefaultRoom :: "bool option"

subsection \<open>Truthiness, property reads, template literals\<close>

definition truthy :: "string option \<Rightarrow> bool" where
  \<comment> \<open>a string that is neither \<open>null\<close>, \<open>undefined\<close> nor empty\<close>
  "truthy v = (case v of None \<Rightarrow> False | Some s \<Rightarrow> s \<noteq> [])"

definition truthyBool :: "bool option \<Rightarrow> bool" where
  "truthyBool v = (case v of None \<Rightarrow> False | Some b \<Rightarrow> b)"

definition readProp :: "'a option \<Rightarrow> ('a \<Rightarrow> 'b) \<Rightarrow> js_error + 'b" where
  \<comment> \<open>\<open>obj.f\<close>: a \<open>TypeError\<close> when \<open>obj\<close> is \<open>undefined\<close>\<close>
  "readProp obj f = (case obj of None \<Rightarrow> Inl TypeError | Some x \<Rightarrow> Inr (f x))"

definition bindE :: "js_error + 'a \<Rightarrow> ('a \<Rightarrow> js_error + 'b) \<Rightarrow> js_error + 'b" where
  "bindE m f = (case m of Inl e \<Rightarrow> Inl e | Inr x \<Rightarrow> f x)"

definition printed :: "string option \<Rightarrow> string" where
  \<comment> \<open>\<open>`${v}`\<close>\<close>
  "printed v = (case v of None \<Rightarrow> ''undefined'' | Some s \<Rightarrow> s)"

text \<open>\<open>obj[key] = value\<close> on an object kept as the list of its own properties, in the
  order of their creation (the order \<open>_.values\<close> and \<open>_.map\<close> follow for keys that are not
  array indices).\<close>

fun setProperty :: "string \<Rightarrow> 'v \<Rightarrow> (string \<times> 'v) list \<Rightarrow> (string \<times> 'v) list" where
  "setProperty k v [] = [(k, v)]"
| "setProperty k v (p # ps) = (if fst p = k then (k, v) # ps else p # setProperty k v ps)"

subsection \<open>addSMSDomainIfPhoneNumber (lines 86-92)\<close>

definition addSMSDomainIfPhoneNumber :: "deps \<Rightarrow> onyx_state \<Rightarrow> string \<Rightarrow> string" where
  "addSMSDomainIfPhoneNumber d s login =
     (if Str_isValidPhone d login \<and> \<not> Str_isValidEmail d login
      then (let smsLogin = login @ CONST_SMS_DOMAIN d
            in if stringIncludes smsLogin ''+'' then smsLogin
               else ''+'' @ countryCodeByIP s @ smsLogin)
      else login)"

subsection \<open>getPersonalDetailsForLogins (lines 101-115)\<close>

definition getPersonalDetailsForLogins ::
  "deps \<Rightarrow> string list \<Rightarrow> (string \<times> personal_detail) list \<Rightarrow> (string \<times> personal_detail) list" where
  "getPersonalDetailsForLogins d logins personalDetails =
     foldl (\<lambda>personalDetailsForLogins login.
              setProperty login
                (case map_of personalDetails login of
                   Some personalDetail \<Rightarrow> personalDetail
                 | None \<Rightarrow>
                     \<lparr>pd_login = login, pd_displayName = Str_removeSMSDomain d login,
                      pd_firstName = [], pd_lastName = [],
                      pd_avatar = ReportUtils_getDefaultAvatar d login,
                      pd_phoneNumber = None, pd_payPalMeAddress = None\<rparr>)
                personalDetailsForLogins)
           [] logins"

subsection \<open>getParticipantNames (lines 124-143)\<close>

definition addParticipantNames :: "string set \<Rightarrow> personal_detail \<Rightarrow> string set" where
  "addParticipantNames participantNames participant =
     (let n1 = (if pd_login participant \<noteq> []
                then insert (toLowerCase (pd_login participant)) participantNames
                else participantNames);
          n2 = (if pd_firstName participant \<noteq> []
                then insert (toLowerCase (pd_firstName participant)) n1 else n1);
          n3 = (if pd_lastName participant \<noteq> []
                then insert (toLowerCase (pd_lastName participant)) n2 else n2)
      in if pd_displayName participant \<noteq> []
         then insert (toLowerCase (pd_displayName participant)) n3 else n3)"

definition getParticipantNames :: "personal_detail list \<Rightarrow> string set" where
  "getParticipantNames personalDetailList = foldl addParticipantNames {} personalDetailList"

subsection \<open>getSearchText (lines 176-200)\<close>

definition getSearchText ::
  "deps \<Rightarrow> report option \<Rightarrow> string \<Rightarrow> personal_detail list \<Rightarrow> bool \<Rightarrow> string" where
  "getSearchText d report reportName personalDetailList isChatRoomOrPolicyExpenseChat =
     (let searchTerms1 =
            (if \<not> isChatRoomOrPolicyExpenseChat
             then concat (map (\<lambda>personalDetail.
                     [pd_displayName personalDetail, removeDots (pd_login personalDetail)])
                   personalDetailList)
             else []);
          searchTerms =
            (case report of
               None \<Rightarrow> searchTerms1
             | Some r \<Rightarrow>
                 searchTerms1 @ splitChars reportName @ splitOn CHR '','' reportName
                 @ (if isChatRoomOrPolicyExpenseChat
                    then (let chatRoomSubtitle = ReportUtils_getChatRoomSubtitle d r
                          in splitChars chatRoomSubtitle @ splitOn CHR '','' chatRoomSubtitle)
                    else r_participants r))
      in join '' '' (uniqFast searchTerms))"

subsection \<open>getBrickRoadIndicatorStatusForReport (lines 210-223)\<close>

definition getBrickRoadIndicatorStatusForReport ::
  "deps \<Rightarrow> report \<Rightarrow> (string \<rightharpoonup> report_action list) \<Rightarrow> string" where
  "getBrickRoadIndicatorStatusForReport d report reportActions =
     (let reportErrors = r_errors report;
          reportErrorFields = r_errorFields report;
          reportID = r_reportID report;
          reportsActions =
            (case reportActions (ONYXKEYS_COLLECTION_REPORT_ACTIONS d @ printed reportID) of
               None \<Rightarrow> []
             | Some actions \<Rightarrow> actions);
          hasReportFieldErrors = list_ex (\<lambda>fieldErrors. fieldErrors \<noteq> []) reportErrorFields;
          hasReportActionErrors = list_ex (\<lambda>action. ra_errors action \<noteq> []) reportsActions
      in if reportErrors = [] \<and> \<not> hasReportFieldErrors \<and> \<not> hasReportActionErrors
         then []
         else CONST_BRICK_ROAD_INDICATOR_STATUS_ERROR d)"

subsection \<open>createOption (lines 237-351)\<close>

text \<open>The text under the option's title (lines 294-324), computed when there is a
  report. Line 323 reads \<open>personalDetail.login\<close>, and only in the last branch.\<close>

definition alternateTextOf ::
  "deps \<Rightarrow> onyx_state \<Rightarrow> (string \<times> personal_detail) list \<Rightarrow> personal_detail option \<Rightarrow> report
     \<Rightarrow> bool \<Rightarrow> bool \<Rightarrow> bool \<Rightarrow> js_error + string" where
  "alternateTextOf d s personalDetailMap personalDetail r hasMultipleParticipants
       showChatPreviewLine forcePolicyNamePreview =
     (let lastMessageTextFromReport =
            (if ReportUtils_isReportMessageAttachment d (r_lastMessageText r) (r_lastMessageHtml r)
             then ''['' @ Localize_translateLocal d ''common.attachment'' @ '']''
             else Str_htmlDecode d (r_lastMessageText r));
          lastActorDetails = map_of personalDetailMap (r_lastActorEmail r);
          lastMessageText1 =
            (case lastActorDetails of
               Some actor \<Rightarrow> (if hasMultipleParticipants then pd_displayName actor @ '': '' else [])
             | None \<Rightarrow> [])
            @ lastMessageTextFromReport;
          archiveReason =
            (case lastReportActions s (printed (r_reportID r)) of
               None \<Rightarrow> CONST_REPORT_ARCHIVE_REASON_DEFAULT d
             | Some action \<Rightarrow>
                 (if truthy (ra_reason action) then printed (ra_reason action)
                  else CONST_REPORT_ARCHIVE_REASON_DEFAULT d));
          lastMessageText =
            (if ReportUtils_isPolicyExpenseChat d r \<and> ReportUtils_isArchivedRoom d r
             then Localize_translate d (preferredLocale s) (''reportArchiveReasons.'' @ archiveReason)
                    (r_lastActorEmail r) (ReportUtils_getPolicyName d r)
             else lastMessageText1)
      in if ReportUtils_isChatRoom d r \<or> ReportUtils_isPolicyExpenseChat d r
         then Inr (if showChatPreviewLine \<and> \<not> forcePolicyNamePreview \<and> lastMessageText \<noteq> []
                   then lastMessageText
                   else ReportUtils_getChatRoomSubtitle d r)
         else if showChatPreviewLine \<and> lastMessageText \<noteq> []
              then Inr lastMessageText
              else readProp personalDetail (\<lambda>p. Str_removeSMSDomain d (pd_login p)))"

text \<open>
  \<open>personalDetail\<close> is \<open>personalDetailList[0]\<close>: \<open>undefined\<close> when \<open>logins\<close> is empty. The
  source reads a property of it at line 323 (above), line 326 (\<open>keyForList\<close> without a
  report), lines 338-340 (a single participant) and, on every path, line 347
  (\<open>personalDetail.avatar\<close>, the last argument of \<open>ReportUtils.getIcons\<close>).
\<close>

definition createOption ::
  "deps \<Rightarrow> onyx_state \<Rightarrow> string list \<Rightarrow> (string \<times> personal_detail) list \<Rightarrow> report option
     \<Rightarrow> (string \<rightharpoonup> report_action list) \<Rightarrow> bool \<Rightarrow> bool \<Rightarrow> js_error + report_option" where
  "createOption d s logins personalDetails report reportActions
       showChatPreviewLine forcePolicyNamePreview =
     (let personalDetailMap = getPersonalDetailsForLogins d logins personalDetails;
          personalDetailList = map snd personalDetailMap;
          personalDetail = (case personalDetailList of [] \<Rightarrow> None | p # _ \<Rightarrow> Some p);
          isChatRoom = (case report of None \<Rightarrow> False | Some r \<Rightarrow> ReportUtils_isChatRoom d r);
          isArchivedRoom =
            (case report of None \<Rightarrow> False | Some r \<Rightarrow> ReportUtils_isArchivedRoom d r);
          isPolicyExpenseChat =
            (case report of None \<Rightarrow> False | Some r \<Rightarrow> ReportUtils_isPolicyExpenseChat d r);
          hasMultipleParticipants =
            (length personalDetailList > 1 \<or> isChatRoom \<or> isPolicyExpenseChat);
          subtitle = map_option (ReportUtils_getChatRoomSubtitle d) report;
          hasOutstandingIOU =
            (case report of None \<Rightarrow> False | Some r \<Rightarrow> r_hasOutstandingIOU r);
          iouReport =
            (case report of
               None \<Rightarrow> None
             | Some r \<Rightarrow>
                 (if hasOutstandingIOU
                  then iouReports s (ONYXKEYS_COLLECTION_REPORT_IOUS d @ printed (r_iouReportID r))
                  else None))
      in bindE
           (case report of
              Some r \<Rightarrow>
                bindE (alternateTextOf d s personalDetailMap personalDetail r
                         hasMultipleParticipants showChatPreviewLine forcePolicyNamePreview)
                  (\<lambda>alternateText. Inr (Some alternateText, Some (printed (r_reportID r))))
            | None \<Rightarrow>
                bindE (readProp personalDetail pd_login)
                  (\<lambda>login. Inr (None, Some login)))
           (\<lambda>(alternateText, keyForList).
         bindE
           (if \<not> hasMultipleParticipants
            then readProp personalDetail
                   (\<lambda>p. (Some (pd_login p), pd_phoneNumber p, pd_payPalMeAddress p))
            else Inr (None, None, None))
           (\<lambda>(login, phoneNumber, payPalMeAddress).
         let reportName = ReportUtils_getReportName d report personalDetailMap
         in bindE (readProp personalDetail pd_avatar)
           (\<lambda>avatar.
         Inr \<lparr>o_text = reportName,
              o_alternateText = alternateText,
              o_brickRoadIndicator =
                map_option (\<lambda>r. getBrickRoadIndicatorStatusForReport d r reportActions) report,
              o_icons = ReportUtils_getIcons d report personalDetails avatar,
              o_tooltipText =
                map_option (\<lambda>r. ReportUtils_getReportParticipantsTitle d (r_participants r)) report,
              o_ownerEmail = (case report of None \<Rightarrow> None | Some r \<Rightarrow> r_ownerEmail r),
              o_subtitle = subtitle,
              o_participantsList = personalDetailList,
              o_login = login,
              o_reportID = (case report of None \<Rightarrow> None | Some r \<Rightarrow> r_reportID r),
              o_phoneNumber = phoneNumber,
              o_payPalMeAddress = payPalMeAddress,
              o_isUnread = map_option (\<lambda>r. r_unreadActionCount r > 0) report,
              o_hasDraftComment = (case report of None \<Rightarrow> False | Some r \<Rightarrow> r_hasDraft r),
              o_keyForList = keyForList,
              o_searchText =
                Some (getSearchText d report reportName personalDetailList
                        (isChatRoom \<or> isPolicyExpenseChat)),
              o_isPinned = (case report of None \<Rightarrow> False | Some r \<Rightarrow> r_isPinned r),
              o_hasOutstandingIOU = hasOutstandingIOU,
              o_iouReportID = (case report of None \<Rightarrow> None | Some r \<Rightarrow> r_iouReportID r),
              o_isIOUReportOwner =
                map_option (\<lambda>i. Some (iou_ownerEmail i) = currentUserLogin s) iouReport,
              o_iouReportAmount = (case iouReport of None \<Rightarrow> 0 | Some i \<Rightarrow> iou_total i),
              o_isChatRoom = isChatRoom,
              o_isArchivedRoom = isArchivedRoom,
              o_shouldShowSubscript =
                (case report of
                   None \<Rightarrow> False
                 | Some r \<Rightarrow> isPolicyExpenseChat \<and> \<not> r_isOwnPolicyExpenseChat r \<and> \<not> isArchivedRoom),
              o_isPolicyExpenseChat = isPolicyExpenseChat,
              o_isDefaultRoom = None\<rparr>))))"

subsection \<open>isSearchStringMatch (lines 362-375)\<close>

definition searchWords :: "string \<Rightarrow> string list" where
  "searchWords searchValue =
     map trim (splitOn CHR '' '' (commasToSpaces (removeDots searchValue)))"

text \<open>\<open>valueToSearch\<close> is \<open>searchText && searchText.replace(...)\<close>; \<open>test\<close> converts its
  argument to a string, so a \<open>null\<close> search text is tested as the text \<open>null\<close>.
  \<open>participantNames.has(word)\<close> looks the word up as it is.\<close>

definition isSearchStringMatch :: "string \<Rightarrow> string option \<Rightarrow> string set \<Rightarrow> bool \<Rightarrow> bool" where
  "isSearchStringMatch searchValue searchText participantNames isChatRoom =
     list_all
       (\<lambda>word.
          let valueToSearch = (case searchText of None \<Rightarrow> ''null'' | Some t \<Rightarrow> removeNbsp t)
          in regExpTestIgnoreCase word valueToSearch
             \<or> (\<not> isChatRoom \<and> word \<in> participantNames))
       (searchWords searchValue)"

subsection \<open>isCurrentUser (lines 383-404)\<close>

record user_details =
  ud_login :: string

text \<open>The \<open>while\<close> loop over \<open>loginList\<close>, from the entry at \<open>index\<close> on.\<close>

fun loginListLoop :: "string list \<Rightarrow> string \<Rightarrow> bool \<Rightarrow> bool" where
  "loginListLoop [] userDetailsLogin result = result"
| "loginListLoop (partnerUserID # rest) userDetailsLogin result =
     (if result then result
      else loginListLoop rest userDetailsLogin
             (if toLowerCase partnerUserID = toLowerCase userDetailsLogin then True else result))"

definition isCurrentUser :: "deps \<Rightarrow> onyx_state \<Rightarrow> user_details option \<Rightarrow> js_error + bool" where
  "isCurrentUser d s userDetails =
     (case userDetails of
        None \<Rightarrow> Inr False
      | Some u \<Rightarrow>
          (let userDetailsLogin = addSMSDomainIfPhoneNumber d s (ud_login u)
           in bindE (readProp (currentUserLogin s) toLowerCase)
                (\<lambda>lowered.
                   let result = (lowered = toLowerCase userDetailsLogin)
                   in bindE (readProp (loginList s) (\<lambda>l. l))
                        (\<lambda>entries. Inr (loginListLoop entries userDetailsLogin result)))))"

subsection \<open>Sorting as lodash and underscore do it\<close>

text \<open>\<open>lodashOrderBy(xs, [key], [direction])\<close> and \<open>_.sortBy(xs, key)\<close> are stable: both
  break a tie of keys by the position in \<open>xs\<close>, whatever the direction. Keys are
  compared with \<open><\<close> and \<open>>\<close>: numbers by value, strings by their code units, and
  \<open>false\<close> before \<open>true\<close>. Every element has its key (no \<open>undefined\<close>, \<open>null\<close> or
  \<open>NaN\<close>, which lodash orders apart).\<close>

definition lodashOrderByAsc :: "('a \<Rightarrow> 'k::linorder) \<Rightarrow> 'a list \<Rightarrow> 'a list" where
  "lodashOrderByAsc key xs = sort_key key xs"

definition lodashOrderByDesc :: "('a \<Rightarrow> 'k::linorder) \<Rightarrow> 'a list \<Rightarrow> 'a list" where
  "lodashOrderByDesc key xs = rev (sort_key key (rev xs))"

definition underscoreSortBy :: "('a \<Rightarrow> 'k::linorder) \<Rightarrow> 'a list \<Rightarrow> 'a list" where
  "underscoreSortBy key xs = sort_key key xs"

subsection \<open>getOptions (lines 416-695)\<close>

text \<open>The configuration object, with \<open>selectedOptions\<close> kept as the \<open>login\<close> of each
  selected option (the only property read of them). The cap is a count; a negative or
  fractional cap, which no length equals, acts as the cap 0 does. \<open>activeReportID\<close> is
  passed to the functions below as \<open>activeReportID.toString()\<close>.\<close>

record options_config =
  reportActions :: "string \<rightharpoonup> report_action list"
  betas :: "string list"
  selectedOptions :: "string option list"
  maxRecentReportsToShow :: nat
  excludeLogins :: "string list"
  excludeChatRooms :: bool
  includeMultipleParticipantReports :: bool
  includePersonalDetails :: bool
  includeRecentReports :: bool
  prioritizePinnedReports :: bool
  prioritizeDefaultRoomsInSearch :: bool
  sortByReportTypeInSearch :: bool
  sortByLastMessageTimestamp :: bool
  searchValue :: string
  showChatPreviewLine :: bool
  showReportsWithNoComments :: bool
  hideReadReports :: bool
  sortByAlphaAsc :: bool
  sortPersonalDetailsByAlphaAsc :: bool
  forcePolicyNamePreview :: bool
  prioritizeIOUDebts :: bool
  prioritizeReportsWithDraftComments :: bool

text \<open>The defaults of the destructured parameter (lines 417-440).\<close>

definition defaultConfig :: options_config where
  "defaultConfig =
     \<lparr>reportActions = Map.empty, betas = [], selectedOptions = [],
      maxRecentReportsToShow = 0, excludeLogins = [], excludeChatRooms = False,
      includeMultipleParticipantReports = False, includePersonalDetails = False,
      includeRecentReports = False, prioritizePinnedReports = False,
      prioritizeDefaultRoomsInSearch = False, sortByReportTypeInSearch = False,
      sortByLastMessageTimestamp = True, searchValue = [], showChatPreviewLine = False,
      showReportsWithNoComments = False, hideReadReports = False, sortByAlphaAsc = False,
      sortPersonalDetailsByAlphaAsc = True, forcePolicyNamePreview = False,
      prioritizeIOUDebts = False, prioritizeReportsWithDraftComments = False\<rparr>"

record options_result =
  personalDetails :: "report_option list"
  recentReports :: "report_option list"
  userToInvite :: "report_option option"

text \<open>Lines 449-457: the sort the configuration asks for.\<close>

definition primaryOrder :: "options_config \<Rightarrow> report list \<Rightarrow> report list" where
  "primaryOrder cfg reports =
     (if sortByAlphaAsc cfg then lodashOrderByAsc r_reportName reports
      else if sortByLastMessageTimestamp cfg then lodashOrderByDesc r_lastMessageTimestamp reports
      else lodashOrderByDesc r_lastVisitedTimestamp reports)"

text \<open>Lines 459-460: the archived rooms move to the end.\<close>

definition orderedReports :: "deps \<Rightarrow> options_config \<Rightarrow> report list \<Rightarrow> report list" where
  "orderedReports d cfg reports =
     underscoreSortBy (ReportUtils_isArchivedRoom d) (primaryOrder cfg reports)"

text \<open>Lines 464-520: whether the callback returns before it builds an option.\<close>

definition skipsReport :: "deps \<Rightarrow> onyx_state \<Rightarrow> options_config \<Rightarrow> string \<Rightarrow> report \<Rightarrow> bool" where
  "skipsReport d s cfg activeReportID report =
     (let isChatRoom = ReportUtils_isChatRoom d report;
          isDefaultRoom = ReportUtils_isDefaultRoom d report;
          isPolicyExpenseChat = ReportUtils_isPolicyExpenseChat d report;
          logins = r_participants report;
          shouldFilterNoParticipants =
            (logins = [] \<and> \<not> isChatRoom \<and> \<not> isDefaultRoom \<and> \<not> isPolicyExpenseChat);
          hasDraftComment = r_hasDraft report;
          iouReport =
            (if truthy (r_iouReportID report)
             then iouReports s (ONYXKEYS_COLLECTION_REPORT_IOUS d @ printed (r_iouReportID report))
             else None);
          iouReportOwner =
            (case iouReport of
               Some i \<Rightarrow> (if r_hasOutstandingIOU report then iou_ownerEmail i else [])
             | None \<Rightarrow> []);
          reportContainsIOUDebt =
            (iouReportOwner \<noteq> [] \<and> Some iouReportOwner \<noteq> currentUserLogin s);
          shouldFilterReportIfEmpty =
            (\<not> showReportsWithNoComments cfg \<and> r_lastMessageTimestamp report = 0
             \<and> \<not> (\<not> ReportUtils_isArchivedRoom d report \<and> (isDefaultRoom \<or> isPolicyExpenseChat)));
          shouldFilterReportIfRead = (hideReadReports cfg \<and> \<not> ReportUtils_isUnread d report);
          shouldFilterReport = (shouldFilterReportIfEmpty \<or> shouldFilterReportIfRead)
      in if \<not> truthy (r_reportID report) \<or> shouldFilterNoParticipants then True
         else if printed (r_reportID report) \<noteq> activeReportID
                 \<and> \<not> r_isPinned report \<and> \<not> hasDraftComment
                 \<and> shouldFilterReport \<and> \<not> reportContainsIOUDebt then True
         else if isChatRoom \<and> excludeChatRooms cfg then True
         else if \<not> Permissions_canUseDefaultRooms d (betas cfg)
                 \<and> ReportUtils_isDefaultRoom d report
                 \<and> ReportUtils_getPolicyType d report \<noteq> CONST_POLICY_TYPE_FREE d
                 \<and> \<not> ReportUtils_hasExpensifyGuidesEmails d logins then True
         else if ReportUtils_isUserCreatedPolicyRoom d report
                 \<and> \<not> Permissions_canUsePolicyRooms d (betas cfg) then True
         else if isPolicyExpenseChat \<and> \<not> Permissions_canUsePolicyExpenseChat d (betas cfg) then True
         else False)"

text \<open>Lines 463-533: the options of the reports that stay, in order, and
  \<open>reportMapForLogins\<close>. The key \<open>logins[0]\<close> of a report without participants is the
  text \<open>undefined\<close>. (Logins are e-mail addresses and phone numbers; none is the name of a
  property of \<open>Object.prototype\<close>, so the object is a map of its own properties.)\<close>

fun buildReportOptions ::
  "deps \<Rightarrow> onyx_state \<Rightarrow> options_config \<Rightarrow> (string \<times> personal_detail) list \<Rightarrow> string
     \<Rightarrow> report list \<Rightarrow> (string \<rightharpoonup> report) \<Rightarrow> report_option list
     \<Rightarrow> js_error + ((string \<rightharpoonup> report) \<times> report_option list)" where
  "buildReportOptions d s cfg pds activeReportID [] reportMapForLogins allReportOptions =
     Inr (reportMapForLogins, allReportOptions)"
| "buildReportOptions d s cfg pds activeReportID (report # rest) reportMapForLogins allReportOptions =
     (if skipsReport d s cfg activeReportID report
      then buildReportOptions d s cfg pds activeReportID rest reportMapForLogins allReportOptions
      else
        (let logins = r_participants report;
             isChatRoom = ReportUtils_isChatRoom d report;
             isPolicyExpenseChat = ReportUtils_isPolicyExpenseChat d report;
             reportMapForLogins' =
               (if length logins \<le> 1 \<and> \<not> isPolicyExpenseChat \<and> \<not> isChatRoom
                then reportMapForLogins
                       ((case logins of [] \<Rightarrow> ''undefined'' | l # _ \<Rightarrow> l) \<mapsto> report)
                else reportMapForLogins);
             isSearchingSomeonesPolicyExpenseChat =
               (\<not> r_isOwnPolicyExpenseChat report \<and> searchValue cfg \<noteq> [])
         in case createOption d s logins pds (Some report) (reportActions cfg)
                   (showChatPreviewLine cfg)
                   (if isPolicyExpenseChat then isSearchingSomeonesPolicyExpenseChat
                    else forcePolicyNamePreview cfg) of
              Inl e \<Rightarrow> Inl e
            | Inr reportOption \<Rightarrow>
                buildReportOptions d s cfg pds activeReportID rest reportMapForLogins'
                  (allReportOptions @ [reportOption])))"

text \<open>Lines 535-544: one option for every personal detail.\<close>

fun buildPersonalDetailsOptions ::
  "deps \<Rightarrow> onyx_state \<Rightarrow> options_config \<Rightarrow> (string \<times> personal_detail) list
     \<Rightarrow> (string \<rightharpoonup> report) \<Rightarrow> personal_detail list \<Rightarrow> js_error + report_option list" where
  "buildPersonalDetailsOptions d s cfg pds reportMapForLogins [] = Inr []"
| "buildPersonalDetailsOptions d s cfg pds reportMapForLogins (personalDetail # rest) =
     (case createOption d s [pd_login personalDetail] pds
             (reportMapForLogins (pd_login personalDetail)) (reportActions cfg)
             (showChatPreviewLine cfg) (forcePolicyNamePreview cfg) of
        Inl e \<Rightarrow> Inl e
      | Inr personalDetailOption \<Rightarrow>
          (case buildPersonalDetailsOptions d s cfg pds reportMapForLogins rest of
             Inl e \<Rightarrow> Inl e
           | Inr options \<Rightarrow> Inr (personalDetailOption # options)))"

text \<open>The arrays the loop of lines 558-603 fills.\<close>

record selection =
  recentReportOptions :: "report_option list"
  pinnedReportOptions :: "report_option list"
  iouDebtReportOptions :: "report_option list"
  draftReportOptions :: "report_option list"
  loginOptionsToExclude :: "string option list"

text \<open>Lines 584-601: an accepted option goes to one array, and its login to the
  logins to exclude.\<close>

definition acceptOption :: "options_config \<Rightarrow> report_option \<Rightarrow> selection \<Rightarrow> selection" where
  "acceptOption cfg reportOption st =
     (let st1 =
            (if prioritizePinnedReports cfg \<and> o_isPinned reportOption
                \<and> \<not> (o_isArchivedRoom reportOption \<and> truthyBool (o_isDefaultRoom reportOption))
             then st\<lparr>pinnedReportOptions := pinnedReportOptions st @ [reportOption]\<rparr>
             else if prioritizeIOUDebts cfg \<and> o_hasOutstandingIOU reportOption
                     \<and> \<not> truthyBool (o_isIOUReportOwner reportOption)
             then st\<lparr>iouDebtReportOptions := iouDebtReportOptions st @ [reportOption]\<rparr>
             else if prioritizeReportsWithDraftComments cfg \<and> o_hasDraftComment reportOption
             then st\<lparr>draftReportOptions := draftReportOptions st @ [reportOption]\<rparr>
             else st\<lparr>recentReportOptions := recentReportOptions st @ [reportOption]\<rparr>)
      in if truthy (o_login reportOption)
         then st1\<lparr>loginOptionsToExclude := loginOptionsToExclude st1 @ [o_login reportOption]\<rparr>
         else st1)"

text \<open>Lines 567-582: the three tests that \<open>continue\<close>.\<close>

definition passesFilters :: "options_config \<Rightarrow> string option list \<Rightarrow> report_option \<Rightarrow> bool" where
  "passesFilters cfg excluded reportOption =
     (\<not> (\<not> includeMultipleParticipantReports cfg \<and> \<not> truthy (o_login reportOption))
      \<and> \<not> (truthy (o_login reportOption)
            \<and> list_ex (\<lambda>login. login = o_login reportOption) excluded)
      \<and> \<not> (searchValue cfg \<noteq> []
            \<and> \<not> isSearchStringMatch (searchValue cfg) (o_searchText reportOption)
                  (getParticipantNames (o_participantsList reportOption))
                  (o_isChatRoom reportOption)))"

text \<open>Lines 559-602: the loop, from the option at \<open>i\<close> on. The first test is the \<open>break\<close>.\<close>

fun selectRecentReports :: "options_config \<Rightarrow> report_option list \<Rightarrow> selection \<Rightarrow> selection" where
  "selectRecentReports cfg [] st = st"
| "selectRecentReports cfg (reportOption # rest) st =
     (if length (recentReportOptions st) > 0
         \<and> length (recentReportOptions st) = maxRecentReportsToShow cfg
      then st
      else if passesFilters cfg (loginOptionsToExclude st) reportOption
      then selectRecentReports cfg rest (acceptOption cfg reportOption st)
      else selectRecentReports cfg rest st)"

text \<open>Lines 605-629: the arrays put together.\<close>

definition recombine :: "options_config \<Rightarrow> selection \<Rightarrow> report_option list" where
  "recombine cfg st =
     (let recent1 =
            (if prioritizeReportsWithDraftComments cfg
             then lodashOrderByAsc o_text (draftReportOptions st) @ recentReportOptions st
             else recentReportOptions st);
          recent2 =
            (if prioritizeIOUDebts cfg
             then lodashOrderByDesc o_iouReportAmount (iouDebtReportOptions st) @ recent1
             else recent1);
          recent3 =
            (if prioritizePinnedReports cfg
             then lodashOrderByAsc o_text (pinnedReportOptions st) @ recent2
             else recent2)
      in if prioritizeDefaultRoomsInSearch cfg \<and> searchValue cfg \<noteq> []
         then filter o_isChatRoom recent3 @ filter (\<lambda>option. \<not> o_isChatRoom option) recent3
         else recent3)"

text \<open>Lines 631-646.\<close>

definition selectPersonalDetails ::
  "options_config \<Rightarrow> string option list \<Rightarrow> report_option list \<Rightarrow> report_option list" where
  "selectPersonalDetails cfg excluded allPersonalDetailsOptions =
     (if includePersonalDetails cfg
      then filter
             (\<lambda>personalDetailOption.
                \<not> list_ex (\<lambda>login. login = o_login personalDetailOption) excluded
                \<and> \<not> (searchValue cfg \<noteq> []
                      \<and> \<not> isSearchStringMatch (searchValue cfg) (o_searchText personalDetailOption)
                            (getParticipantNames (o_participantsList personalDetailOption))
                            (o_isChatRoom personalDetailOption)))
             allPersonalDetailsOptions
      else [])"

text \<open>Lines 648-667. The conjunction is evaluated from the left, so \<open>isCurrentUser\<close> runs
  only for a query that is not empty and matches no login exactly.\<close>

definition inviteOption ::
  "deps \<Rightarrow> onyx_state \<Rightarrow> options_config \<Rightarrow> (string \<times> personal_detail) list
     \<Rightarrow> report_option list \<Rightarrow> report_option list \<Rightarrow> string option list
     \<Rightarrow> js_error + report_option option" where
  "inviteOption d s cfg pds recentOptions personalDetailsOptions excluded =
     (let noOptions = (length recentOptions + length personalDetailsOptions = 0);
          noOptionsMatchExactly =
            (\<not> list_ex (\<lambda>option. o_login option = Some (toLowerCase (searchValue cfg)))
                 (personalDetailsOptions @ recentOptions))
      in if searchValue cfg \<noteq> [] \<and> (noOptions \<or> noOptionsMatchExactly)
         then bindE (isCurrentUser d s (Some \<lparr>ud_login = searchValue cfg\<rparr>))
                (\<lambda>current.
                   if \<not> current
                      \<and> list_all (\<lambda>login. login \<noteq> Some (searchValue cfg)) (selectedOptions cfg)
                      \<and> ((Str_isValidEmail d (searchValue cfg) \<and> \<not> Str_isDomainEmail d (searchValue cfg))
                         \<or> Str_isValidPhone d (searchValue cfg))
                      \<and> \<not> list_ex
                            (\<lambda>login. login
                               = Some (toLowerCase (addSMSDomainIfPhoneNumber d s (searchValue cfg))))
                            excluded
                      \<and> (searchValue cfg \<noteq> CONST_EMAIL_CHRONOS d
                         \<or> Permissions_canUseChronos d (betas cfg))
                   then (let login =
                               (if Str_isValidPhone d (searchValue cfg)
                                   \<and> \<not> stringIncludes (searchValue cfg) ''+''
                                then ''+'' @ countryCodeByIP s @ searchValue cfg
                                else searchValue cfg)
                         in bindE (createOption d s [login] pds None (reportActions cfg)
                                     (showChatPreviewLine cfg) False)
                              (\<lambda>invite.
                                 Inr (Some (invite\<lparr>o_icons := [ReportUtils_getDefaultAvatar d login]\<rparr>))))
                   else Inr None)
         else Inr None)"

text \<open>Lines 669-688: the rank of an option in the search view.\<close>

definition reportTypeRank :: "options_config \<Rightarrow> report_option \<Rightarrow> nat" where
  "reportTypeRank cfg option =
     (if o_isChatRoom option \<or> o_isArchivedRoom option then 3
      else if \<not> truthy (o_login option) then 2
      else if toLowerCase (printed (o_login option)) \<noteq> toLowerCase (searchValue cfg) then 1
      else 0)"

text \<open>Lines 448-549: the candidates, the reports' options in the order of
  \<open>orderedReports\<close> and the personal details' options.\<close>

definition candidateOptions ::
  "deps \<Rightarrow> onyx_state \<Rightarrow> report list \<Rightarrow> (string \<times> personal_detail) list \<Rightarrow> string
     \<Rightarrow> options_config \<Rightarrow> js_error + (report_option list \<times> report_option list)" where
  "candidateOptions d s reports pds activeReportID cfg =
     bindE (buildReportOptions d s cfg pds activeReportID (orderedReports d cfg reports)
              Map.empty [])
       (\<lambda>(reportMapForLogins, allReportOptions).
     bindE (buildPersonalDetailsOptions d s cfg pds reportMapForLogins (map snd pds))
       (\<lambda>allPersonalDetailsOptions.
     Inr (allReportOptions,
          if sortPersonalDetailsByAlphaAsc cfg
          then lodashOrderByAsc (\<lambda>personalDetail. toLowerCase (o_text personalDetail))
                 allPersonalDetailsOptions
          else allPersonalDetailsOptions)))"

text \<open>Lines 442-446 and 551-556: the empty arrays, and the logins excluded from the
  start: the selected options, the current user, \<open>excludeLogins\<close>.\<close>

definition startSelection :: "onyx_state \<Rightarrow> options_config \<Rightarrow> selection" where
  "startSelection s cfg =
     \<lparr>recentReportOptions = [], pinnedReportOptions = [], iouDebtReportOptions = [],
      draftReportOptions = [],
      loginOptionsToExclude =
        selectedOptions cfg @ [currentUserLogin s] @ map Some (excludeLogins cfg)\<rparr>"

text \<open>Lines 558-603.\<close>

definition selectionOf :: "onyx_state \<Rightarrow> options_config \<Rightarrow> report_option list \<Rightarrow> selection" where
  "selectionOf s cfg allReportOptions =
     (if includeRecentReports cfg
      then selectRecentReports cfg allReportOptions (startSelection s cfg)
      else startSelection s cfg)"

text \<open>Lines 605-695, from the candidates to the result.\<close>

definition optionsFrom ::
  "deps \<Rightarrow> onyx_state \<Rightarrow> (string \<times> personal_detail) list \<Rightarrow> options_config
     \<Rightarrow> report_option list \<Rightarrow> report_option list \<Rightarrow> js_error + options_result" where
  "optionsFrom d s pds cfg allReportOptions allPersonalDetailsOptions =
     (let st = selectionOf s cfg allReportOptions;
          recentOptions = recombine cfg st;
          personalDetailsOptions =
            selectPersonalDetails cfg (loginOptionsToExclude st) allPersonalDetailsOptions
      in bindE (inviteOption d s cfg pds recentOptions personalDetailsOptions
                  (loginOptionsToExclude st))
           (\<lambda>invite.
              Inr (if sortByReportTypeInSearch cfg \<and> searchValue cfg \<noteq> []
                   then \<lparr>personalDetails = [],
                         recentReports =
                           lodashOrderByAsc (reportTypeRank cfg)
                             (recentOptions @ personalDetailsOptions),
                         userToInvite = invite\<rparr>
                   else \<lparr>personalDetails = personalDetailsOptions,
                         recentReports = recentOptions,
                         userToInvite = invite\<rparr>)))"

definition getOptions ::
  "deps \<Rightarrow> onyx_state \<Rightarrow> report list \<Rightarrow> (string \<times> personal_detail) list \<Rightarrow> string
     \<Rightarrow> options_config \<Rightarrow> js_error + options_result" where
  "getOptions d s reports pds activeReportID cfg =
     bindE (candidateOptions d s reports pds activeReportID cfg)
       (\<lambda>(allReportOptions, allPersonalDetailsOptions).
          optionsFrom d s pds cfg allReportOptions allPersonalDetailsOptions)"

subsection \<open>Notions of the specification\<close>

text \<open>The body of the loop of lines 559-602 without its \<open>break\<close>: an option that passes
  the three tests is accepted. Folding it over the candidates is the selection with no
  limit.\<close>

definition examine :: "options_config \<Rightarrow> selection \<Rightarrow> report_option \<Rightarrow> selection" where
  "examine cfg st reportOption =
     (if passesFilters cfg (loginOptionsToExclude st) reportOption
      then acceptOption cfg reportOption st
      else st)"

text \<open>How many options the loop has accepted, over all four arrays.\<close>

definition acceptedCount :: "selection \<Rightarrow> nat" where
  "acceptedCount st =
     length (recentReportOptions st) + length (pinnedReportOptions st)
     + length (iouDebtReportOptions st) + length (draftReportOptions st)"

text \<open>The order the specification gives the recent list: the pinned options by text,
  the IOU debts by amount (largest first), the drafts by text, the other options as they
  came.\<close>

definition recombinationOrder :: "selection \<Rightarrow> report_option list" where
  "recombinationOrder st =
     lodashOrderByAsc o_text (pinnedReportOptions st)
     @ lodashOrderByDesc o_iouReportAmount (iouDebtReportOptions st)
     @ lodashOrderByAsc o_text (draftReportOptions st)
     @ recentReportOptions st"

text \<open>The login of every accepted option that has one is among the logins to exclude.\<close>

definition excludesAccepted :: "selection \<Rightarrow> bool" where
  "excludesAccepted st =
     (\<forall>opt \<in> set (recentReportOptions st) \<union> set (pinnedReportOptions st)
              \<union> set (iouDebtReportOptions st) \<union> set (draftReportOptions st).
        truthy (o_login opt) \<longrightarrow> o_login opt \<in> set (loginOptionsToExclude st))"

section \<open>Example data\<close>

text \<open>An instance of the imports, for the closed examples below: the room kinds by chat
  type as \<open>ReportUtils\<close> tells them apart, an archived room by its state and status, the
  name of a chat without a room kind by its participants' display names.\<close>

definition exampleDeps :: deps where
  "exampleDeps =
     \<lparr>Str_isValidPhone = (\<lambda>s. s \<noteq> [] \<and> list_all (\<lambda>c. c \<in> set ''+0123456789'') s),
      Str_isValidEmail = (\<lambda>s. CHR ''@'' \<in> set s \<and> \<not> prefix ''+@'' s),
      Str_isDomainEmail = (\<lambda>s. prefix ''+@'' s),
      Str_removeSMSDomain = (\<lambda>s. if suffix ''@expensify.sms'' s then take (length s - 14) s else s),
      Str_htmlDecode = (\<lambda>s. s),
      ReportUtils_getDefaultAvatar = (\<lambda>login. ''default-avatar''),
      ReportUtils_isChatRoom =
        (\<lambda>r. r_chatType r \<in> {''policyAdmins'', ''policyAnnounce'', ''domainAll'', ''policyRoom''}),
      ReportUtils_isArchivedRoom =
        (\<lambda>r. r_chatType r \<noteq> [] \<and> r_stateNum r = 2 \<and> r_statusNum r = 2),
      ReportUtils_isPolicyExpenseChat = (\<lambda>r. r_chatType r = ''policyExpenseChat''),
      ReportUtils_isDefaultRoom =
        (\<lambda>r. r_chatType r \<in> {''policyAdmins'', ''policyAnnounce'', ''domainAll''}),
      ReportUtils_isUserCreatedPolicyRoom = (\<lambda>r. r_chatType r = ''policyRoom''),
      ReportUtils_isUnread = (\<lambda>r. r_unreadActionCount r > 0),
      ReportUtils_getChatRoomSubtitle = (\<lambda>r. if r_chatType r = [] then [] else r_policyID r),
      ReportUtils_getReportParticipantsTitle = (\<lambda>logins. join '', '' logins),
      ReportUtils_isReportMessageAttachment = (\<lambda>text html. text = ''[Attachment]''),
      ReportUtils_getPolicyName = (\<lambda>r. r_policyID r),
      ReportUtils_getPolicyType = (\<lambda>r. ''free''),
      ReportUtils_hasExpensifyGuidesEmails = (\<lambda>logins. list_ex (suffix ''@team.expensify.com'') logins),
      ReportUtils_getReportName =
        (\<lambda>report personalDetailMap.
           case report of
             None \<Rightarrow> join '', '' (map (\<lambda>p. pd_displayName (snd p)) personalDetailMap)
           | Some r \<Rightarrow>
               (if r_chatType r = [] then join '', '' (map (\<lambda>p. pd_displayName (snd p)) personalDetailMap)
                else r_reportName r)),
      ReportUtils_getIcons = (\<lambda>report personalDetails avatar. [avatar]),
      Localize_translate = (\<lambda>locale key displayName policyName. key),
      Localize_translateLocal = (\<lambda>key. key),
      Permissions_canUseDefaultRooms = (\<lambda>betas. ''defaultRooms'' \<in> set betas),
      Permissions_canUsePolicyRooms = (\<lambda>betas. ''policyRooms'' \<in> set betas),
      Permissions_canUsePolicyExpenseChat = (\<lambda>betas. ''policyExpenseChat'' \<in> set betas),
      Permissions_canUseChronos = (\<lambda>betas. ''chronos'' \<in> set betas),
      CONST_SMS_DOMAIN = ''@expensify.sms'',
      CONST_EMAIL_CHRONOS = ''chronos@expensify.com'',
      CONST_POLICY_TYPE_FREE = ''free'',
      CONST_REPORT_ARCHIVE_REASON_DEFAULT = ''default'',
      CONST_BRICK_ROAD_INDICATOR_STATUS_ERROR = ''error'',
      ONYXKEYS_COLLECTION_REPORT_IOUS = ''reportIOUs_'',
      ONYXKEYS_COLLECTION_REPORT_ACTIONS = ''reportActions_''\<rparr>"

definition exampleState :: onyx_state where
  "exampleState =
     \<lparr>currentUserLogin = Some ''me@x.com'', loginList = Some [''me@x.com''],
      countryCodeByIP = ''1'', preferredLocale = ''en'',
      iouReports = [''reportIOUs_7'' \<mapsto> \<lparr>iou_ownerEmail = ''bob@x.com'', iou_total = 500\<rparr>],
      lastReportActions = Map.empty\<rparr>"

definition person :: "string \<Rightarrow> string \<Rightarrow> personal_detail" where
  "person login name =
     \<lparr>pd_login = login, pd_displayName = name, pd_firstName = [], pd_lastName = [],
      pd_avatar = ''avatar'', pd_phoneNumber = None, pd_payPalMeAddress = None\<rparr>"

definition chat :: "string \<Rightarrow> string list \<Rightarrow> int \<Rightarrow> report" where
  "chat reportID logins lastMessage =
     \<lparr>r_reportID = Some reportID, r_participants = logins, r_reportName = [],
      r_chatType = [], r_stateNum = 0, r_statusNum = 0, r_policyID = [],
      r_isOwnPolicyExpenseChat = False, r_ownerEmail = None, r_unreadActionCount = 0,
      r_hasDraft = False, r_isPinned = False, r_iouReportID = None,
      r_hasOutstandingIOU = False, r_lastMessageText = ''hello'', r_lastMessageHtml = ''hello'',
      r_lastActorEmail = [], r_lastMessageTimestamp = lastMessage,
      r_lastVisitedTimestamp = lastMessage, r_errors = [], r_errorFields = []\<rparr>"

definition room :: "string \<Rightarrow> string \<Rightarrow> string \<Rightarrow> string list \<Rightarrow> int \<Rightarrow> report" where
  "room reportID chatType name logins lastMessage =
     (chat reportID logins lastMessage)\<lparr>r_chatType := chatType, r_reportName := name,
        r_policyID := ''Workspace''\<rparr>"

text \<open>A member whose display name is not made of the first and the last name.\<close>

definition johnSmith :: personal_detail where
  "johnSmith = (person ''j@x.com'' ''J'')\<lparr>pd_firstName := ''John'', pd_lastName := ''Smith''\<rparr>"

definition undefinedState :: onyx_state where
  \<comment> \<open>before the session and the login list have arrived\<close>
  "undefinedState = exampleState\<lparr>currentUserLogin := None, loginList := None\<rparr>"

text \<open>Four chats with one participant each: the oldest plain, the newest with a draft,
  one with a debt that Bob's IOU report records, one pinned. Eve has no chat.\<close>

definition examplePersons :: "(string \<times> personal_detail) list" where
  "examplePersons =
     [(''ann@x.com'', person ''ann@x.com'' ''Ann''), (''bob@x.com'', person ''bob@x.com'' ''Bob''),
      (''cat@x.com'', person ''cat@x.com'' ''Cat''), (''dan@x.com'', person ''dan@x.com'' ''Dan''),
      (''eve@x.com'', person ''eve@x.com'' ''Eve'')]"

definition exampleReports :: "report list" where
  "exampleReports =
     [chat ''1'' [''dan@x.com''] 10,
      (chat ''2'' [''cat@x.com''] 40)\<lparr>r_hasDraft := True\<rparr>,
      (chat ''3'' [''bob@x.com''] 20)\<lparr>r_hasOutstandingIOU := True, r_iouReportID := Some ''7''\<rparr>,
      (chat ''4'' [''ann@x.com''] 30)\<lparr>r_isPinned := True\<rparr>]"

definition sidebarConfig :: options_config where
  "sidebarConfig =
     defaultConfig\<lparr>includeRecentReports := True, includeMultipleParticipantReports := True,
       showChatPreviewLine := True, prioritizePinnedReports := True,
       prioritizeIOUDebts := True, prioritizeReportsWithDraftComments := True\<rparr>"

text \<open>An archived default room that is pinned; a search for \<open>a\<close> that puts rooms
  first; a cap of two, and caps of one and of two with the priorities of the sidebar;
  the lists with people; a query in capitals, and the same with the address among the
  logins to exclude.\<close>

definition archivedAdmins :: report where
  "archivedAdmins =
     (room ''9'' ''policyAdmins'' ''#admins'' [''ann@x.com'', ''bob@x.com''] 20)
       \<lparr>r_stateNum := 2, r_statusNum := 2, r_isPinned := True\<rparr>"

definition roomSearchConfig :: options_config where
  "roomSearchConfig = sidebarConfig\<lparr>prioritizeDefaultRoomsInSearch := True, searchValue := ''a''\<rparr>"

definition roomSearchReports :: "report list" where
  "roomSearchReports =
     [(chat ''4'' [''ann@x.com''] 30)\<lparr>r_isPinned := True\<rparr>,
      room ''6'' ''policyAdmins'' ''#admins'' [''ann@x.com'', ''bob@x.com''] 20]"

definition cappedConfig :: options_config where
  "cappedConfig = defaultConfig\<lparr>includeRecentReports := True, maxRecentReportsToShow := 2\<rparr>"

definition cappedSidebarConfig :: options_config where
  "cappedSidebarConfig = sidebarConfig\<lparr>maxRecentReportsToShow := 1\<rparr>"

definition roomySidebarConfig :: options_config where
  "roomySidebarConfig = sidebarConfig\<lparr>maxRecentReportsToShow := 2\<rparr>"

definition peopleConfig :: options_config where
  "peopleConfig = defaultConfig\<lparr>includeRecentReports := True,
     includeMultipleParticipantReports := True, includePersonalDetails := True\<rparr>"

definition capitalConfig :: options_config where
  "capitalConfig = peopleConfig\<lparr>searchValue := ''Bob@x.com''\<rparr>"

definition excludedCapitalConfig :: options_config where
  "excludedCapitalConfig = capitalConfig\<lparr>excludeLogins := [''Bob@x.com'']\<rparr>"

definition capitalPersons :: "(string \<times> personal_detail) list" where
  "capitalPersons = [(''Bob@x.com'', person ''Bob@x.com'' ''Bob'')]"

text \<open>The candidates of an input, and nothing when building them throws.\<close>

definition candidatesOf ::
  "deps \<Rightarrow> onyx_state \<Rightarrow> report list \<Rightarrow> (string \<times> personal_detail) list \<Rightarrow> string
     \<Rightarrow> options_config \<Rightarrow> report_option list" where
  "candidatesOf d s reports pds activeReportID cfg =
     (case candidateOptions d s reports pds activeReportID cfg of
        Inl e \<Rightarrow> []
      | Inr (allReportOptions, allPersonalDetailsOptions) \<Rightarrow> allReportOptions)"

text \<open>The chat with John Smith, and the lists with people under a search.\<close>

definition smithReports :: "report list" where
  "smithReports = [chat ''1'' [''j@x.com''] 10]"

definition smithPersons :: "(string \<times> personal_detail) list" where
  "smithPersons = [(''j@x.com'', johnSmith)]"

definition searchFor :: "string \<Rightarrow> options_config" where
  "searchFor query = peopleConfig\<lparr>searchValue := query\<rparr>"

section \<open>Properties\<close>

subsection \<open>uniqFast and the search text\<close>

lemma uniqFastLoop_firstOccurrences:
  "''__proto__'' \<notin> set items \<Longrightarrow> (\<forall>k. isNotOne seen k \<longleftrightarrow> k \<notin> set ks) \<Longrightarrow>
   uniqFastLoop items seen result = result @ firstOccurrences ks items"
proof (induction items arbitrary: seen result ks)
  case Nil
  then show ?case by simp
next
  case (Cons item items)
  have p: "''__proto__'' \<notin> set items" and q: "item \<noteq> ''__proto__''"
    using Cons.prems(1) by auto
  show ?case
  proof (cases "item \<in> set ks")
    case True
    then have "\<not> isNotOne seen item" using Cons.prems(2) by simp
    then show ?thesis using True Cons.IH [OF p Cons.prems(2)] by simp
  next
    case False
    have inv: "\<forall>k. isNotOne (assign seen item 1) k \<longleftrightarrow> k \<notin> set (item # ks)"
      using Cons.prems(2) q by (auto simp: isNotOne_def assign_def)
    have "uniqFastLoop items (assign seen item 1) (result @ [item])
            = (result @ [item]) @ firstOccurrences (item # ks) items"
      by (rule Cons.IH [OF p inv])
    moreover have "isNotOne seen item" using Cons.prems(2) False by simp
    ultimately show ?thesis using False by simp
  qed
qed

text \<open>On items other than \<open>__proto__\<close>, \<open>uniqFast\<close> keeps the first occurrence of each
  element, in order, and so returns no element twice.\<close>

lemma uniqFast_firstOccurrences:
  "''__proto__'' \<notin> set items \<Longrightarrow> uniqFast items = firstOccurrences [] items"
  unfolding uniqFast_def using uniqFastLoop_firstOccurrences [of items Map.empty "[]" "[]"]
  by (simp add: isNotOne_def)

lemma firstOccurrences_distinct:
  "distinct (firstOccurrences seen xs) \<and> set (firstOccurrences seen xs) = set xs - set seen"
  by (induction seen xs rule: firstOccurrences.induct) auto

lemma uniqFast_distinct:
  "''__proto__'' \<notin> set items \<Longrightarrow> distinct (uniqFast items) \<and> set (uniqFast items) = set items"
  using firstOccurrences_distinct [of "[]" items] by (simp add: uniqFast_firstOccurrences)

text \<open>
  C8 (the code departs from the claim). The claim: for every array of strings, \<open>uniqFast\<close>
  returns the array restricted to the first occurrence of each distinct element, so the
  search text holds each token once. The item \<open>__proto__\<close> is never recorded in
  \<open>seenItems\<close>, so every occurrence of it is kept: here the array comes back with its
  duplicate.
\<close>

theorem uniqFast_proto_twice:
  "uniqFast [''__proto__'', ''a'', ''__proto__'', ''a''] = [''__proto__'', ''a'', ''__proto__'']"
  by (simp add: uniqFast_def isNotOne_def assign_def)

text \<open>The same through \<open>getSearchText\<close>: a chat with a member whose display name is
  \<open>__proto__\<close> gets the token twice, from the member and from the report's name.\<close>

lemma getSearchText_proto_twice:
  "getSearchText exampleDeps (Some (chat ''1'' [''p@x.com''] 10)) ''__proto__''
     [person ''p@x.com'' ''__proto__''] False
   = ''__proto__ p@xcom _ p r o t __proto__ p@x.com''"
  by code_simp

subsection \<open>isSearchStringMatch\<close>

lemma stringIncludes_sublist: "stringIncludes s w = sublist w s"
proof (induction s)
  case Nil
  then show ?case by simp
next
  case (Cons c cs)
  then show ?case by (simp add: sublist_Cons_right)
qed

text \<open>What the function computes: every word of the query occurs in the search text
  (without \<open>&nbsp;\<close>, letters compared without case) or, for an option that is not a room,
  is itself a member of the participant names.\<close>

lemma isSearchStringMatch_iff:
  "isSearchStringMatch sv (Some t) names isRoom \<longleftrightarrow>
     (\<forall>word \<in> set (searchWords sv).
        sublist (toLowerCase word) (toLowerCase (removeNbsp t))
        \<or> (\<not> isRoom \<and> word \<in> names))"
  by (simp add: isSearchStringMatch_def regExpTestIgnoreCase_def stringIncludes_sublist
      list_all_iff)

text \<open>The example of the specification: the dot of the query is removed.\<close>

lemma isSearchStringMatch_john_doe:
  "isSearchStringMatch ''john.doe'' (Some ''johndoe something'') {} False"
  by code_simp

text \<open>
  C2 (the code departs from the claim). The claim: a token matches when it occurs in the
  search text without regard to case or, for an option that is not a room, when the
  lowercased token is in the set of participant names. \<open>getParticipantNames\<close> stores every
  name in lower case, and line 373 looks the token up as typed: the query \<open>smith\<close> finds
  the member by the last name, the query \<open>Smith\<close> does not.
\<close>

theorem isSearchStringMatch_capital_name:
  "isSearchStringMatch ''smith'' (Some ''J j@xcom'') (getParticipantNames [johnSmith]) False
   \<and> toLowerCase ''Smith'' \<in> getParticipantNames [johnSmith]
   \<and> \<not> isSearchStringMatch ''Smith'' (Some ''J j@xcom'') (getParticipantNames [johnSmith]) False"
  by code_simp

text \<open>The same through \<open>getOptions\<close>: the search for \<open>smith\<close> returns the chat with
  John Smith, whose search text has no last name; the search for \<open>Smith\<close> returns
  nothing.\<close>

lemma search_by_last_name:
  "(case candidateOptions exampleDeps exampleState smithReports smithPersons ''0''
           (searchFor ''Smith'') of
      Inl e \<Rightarrow> [] | Inr (c, p) \<Rightarrow> map o_searchText c) = [Some ''J j@xcom j@x.com'']"
  "(case getOptions exampleDeps exampleState smithReports smithPersons ''0'' (searchFor ''smith'') of
      Inl e \<Rightarrow> [] | Inr res \<Rightarrow> map o_login (recentReports res)) = [Some ''j@x.com'']"
  "(case getOptions exampleDeps exampleState smithReports smithPersons ''0'' (searchFor ''Smith'') of
      Inl e \<Rightarrow> [Some ''error'']
    | Inr res \<Rightarrow> map o_login (recentReports res @ personalDetails res)) = []"
  by code_simp+

subsection \<open>createOption\<close>

text \<open>
  C3 (the code departs from the claim). The claim: \<open>createOption\<close> with an empty login
  list and a report of a room kind does not throw and returns an option with a search
  text. With no login \<open>personalDetail\<close> is \<open>undefined\<close>, and line 347 reads its \<open>avatar\<close>
  on every path: the call throws a \<open>TypeError\<close>, for every report and without one.
\<close>

theorem createOption_without_logins:
  "createOption d s [] pds report ra preview force = Inl TypeError"
proof -
  have m: "getPersonalDetailsForLogins d [] pds = []"
    by (simp add: getPersonalDetailsForLogins_def)
  have e: "\<And>x :: js_error + report_option. isl x \<Longrightarrow> x = Inl TypeError"
    by (metis js_error.exhaust sum.collapse(1))
  have "isl (createOption d s [] pds report ra preview force)"
    unfolding createOption_def m
    by (simp add: bindE_def readProp_def Let_def split: sum.splits option.splits prod.splits)
  then show ?thesis by (rule e)
qed

theorem createOption_without_logins_witness:
  "ReportUtils_isChatRoom exampleDeps (room ''5'' ''policyRoom'' ''#general'' [] 10)
   \<and> createOption exampleDeps exampleState [] [] (Some (room ''5'' ''policyRoom'' ''#general'' [] 10))
        Map.empty True False = Inl TypeError"
  using createOption_without_logins
    [of exampleDeps exampleState "[]" "Some (room ''5'' ''policyRoom'' ''#general'' [] 10)"
        Map.empty True False]
  by (simp add: exampleDeps_def room_def chat_def)

text \<open>\<open>getOptions\<close> lets a room without participants through to \<open>createOption\<close>
  (line 470), and throws with it.\<close>

lemma getOptions_room_without_participants:
  "getOptions exampleDeps exampleState [room ''5'' ''policyRoom'' ''#general'' [] 10] [] ''0''
     (defaultConfig\<lparr>betas := [''policyRooms'']\<rparr>) = Inl TypeError"
  by code_simp

subsection \<open>isCurrentUser\<close>

text \<open>
  C10. \<open>isCurrentUser\<close> returns \<open>false\<close> when its argument is \<open>null\<close> or \<open>undefined\<close>,
  whatever the current user's login and the login list are: also while they are still
  \<open>undefined\<close>, where reading either would throw.
\<close>

theorem isCurrentUser_no_details: "isCurrentUser d s None = Inr False"
  by (simp add: isCurrentUser_def)

theorem isCurrentUser_no_details_witness:
  "isCurrentUser exampleDeps undefinedState None = Inr False
   \<and> isCurrentUser exampleDeps undefinedState (Some \<lparr>ud_login = ''me@x.com''\<rparr>) = Inl TypeError"
  using isCurrentUser_no_details [of exampleDeps undefinedState]
  by (simp add: isCurrentUser_def undefinedState_def exampleState_def bindE_def readProp_def)

subsection \<open>Reading the closed examples\<close>

lemma returns: "\<not> isl x \<Longrightarrow> \<exists>y. x = Inr y"
  by (cases x) auto

lemma candidatesOf_eq:
  "candidateOptions d s reports pds a cfg = Inr (candidates, people)
   \<Longrightarrow> candidatesOf d s reports pds a cfg = candidates"
  by (simp add: candidatesOf_def)

subsection \<open>The order of the candidates\<close>

text \<open>A list sorted by a truth value is its \<open>false\<close> part followed by its \<open>true\<close> part.\<close>

lemma sorted_bool_split:
  "sorted (map f ys) \<Longrightarrow> ys = filter (\<lambda>x. \<not> f x) ys @ filter f ys"
proof (induction ys)
  case Nil
  then show ?case by simp
next
  case (Cons y ys)
  then have ih: "ys = filter (\<lambda>x. \<not> f x) ys @ filter f ys" and le: "\<forall>z \<in> set ys. f y \<le> f z"
    by auto
  show ?case
  proof (cases "f y")
    case True
    with le have "\<forall>z \<in> set ys. f z" by auto
    then have "filter (\<lambda>x. \<not> f x) ys = []" and "filter f ys = ys"
      by (auto simp: filter_empty_conv)
    with True show ?thesis by simp
  next
    case False
    with ih show ?thesis by simp
  qed
qed

lemma underscoreSortBy_bool:
  "underscoreSortBy f xs = filter (\<lambda>x. \<not> f x) xs @ filter f xs"
proof -
  let ?ys = "sort_key f xs"
  have "?ys = filter (\<lambda>x. \<not> f x) ?ys @ filter f ?ys"
    by (rule sorted_bool_split) simp
  moreover have "filter (\<lambda>x. \<not> f x) ?ys = filter (\<lambda>x. \<not> f x) xs"
    using sort_key_stable [of f False xs] by simp
  moreover have "filter f ?ys = filter f xs"
    using sort_key_stable [of f True xs] by simp
  ultimately show ?thesis by (simp add: underscoreSortBy_def)
qed

text \<open>The two sorts of lodash: sorted by the key, stable, the same elements.\<close>

lemma lodashOrderByAsc_sorted: "sorted (map key (lodashOrderByAsc key xs))"
  by (simp add: lodashOrderByAsc_def)

lemma lodashOrderByDesc_sorted: "sorted (rev (map key (lodashOrderByDesc key xs)))"
  by (simp add: lodashOrderByDesc_def rev_map)

lemma lodashOrderByAsc_stable:
  "filter (\<lambda>x. key x = k) (lodashOrderByAsc key xs) = filter (\<lambda>x. key x = k) xs"
  by (simp add: lodashOrderByAsc_def sort_key_stable)

lemma lodashOrderByDesc_stable:
  "filter (\<lambda>x. key x = k) (lodashOrderByDesc key xs) = filter (\<lambda>x. key x = k) xs"
  by (simp add: lodashOrderByDesc_def sort_key_stable flip: rev_filter)

text \<open>The primary sort under each configuration: by name upwards, or by the time of
  the last message or of the last visit downwards.\<close>

lemma primaryOrder_sorted:
  "(sortByAlphaAsc cfg \<longrightarrow> sorted (map r_reportName (primaryOrder cfg reports)))
   \<and> (\<not> sortByAlphaAsc cfg \<and> sortByLastMessageTimestamp cfg
        \<longrightarrow> sorted (rev (map r_lastMessageTimestamp (primaryOrder cfg reports))))
   \<and> (\<not> sortByAlphaAsc cfg \<and> \<not> sortByLastMessageTimestamp cfg
        \<longrightarrow> sorted (rev (map r_lastVisitedTimestamp (primaryOrder cfg reports))))
   \<and> set (primaryOrder cfg reports) = set reports"
  by (simp add: primaryOrder_def lodashOrderByAsc_sorted lodashOrderByDesc_sorted)
     (simp add: lodashOrderByAsc_def lodashOrderByDesc_def)

text \<open>The candidates are the options of the reports that are not skipped, in the order
  of \<open>orderedReports\<close>.\<close>

lemma createOption_report_fields:
  "createOption d s logins pds (Some r) ra preview force = Inr opt
   \<Longrightarrow> o_reportID opt = r_reportID r \<and> o_isArchivedRoom opt = ReportUtils_isArchivedRoom d r"
  unfolding createOption_def
  by (auto simp: bindE_def readProp_def Let_def
      split: sum.splits option.splits prod.splits if_splits)

lemma buildReportOptions_order:
  "buildReportOptions d s cfg pds a reports m acc = Inr (m', opts)
   \<Longrightarrow> map (\<lambda>opt. (o_reportID opt, o_isArchivedRoom opt)) opts
       = map (\<lambda>opt. (o_reportID opt, o_isArchivedRoom opt)) acc
         @ map (\<lambda>r. (r_reportID r, ReportUtils_isArchivedRoom d r))
             (filter (\<lambda>r. \<not> skipsReport d s cfg a r) reports)"
proof (induction reports arbitrary: m acc)
  case Nil
  then show ?case by simp
next
  case (Cons report rest)
  show ?case
  proof (cases "skipsReport d s cfg a report")
    case True
    with Cons show ?thesis by simp
  next
    case False
    with Cons.prems obtain opt m1 where
      c: "createOption d s (r_participants report) pds (Some report) (reportActions cfg)
            (showChatPreviewLine cfg)
            (if ReportUtils_isPolicyExpenseChat d report
             then \<not> r_isOwnPolicyExpenseChat report \<and> searchValue cfg \<noteq> []
             else forcePolicyNamePreview cfg) = Inr opt"
      and b: "buildReportOptions d s cfg pds a rest m1 (acc @ [opt]) = Inr (m', opts)"
      by (auto simp: Let_def split: sum.splits)
    from Cons.IH [OF b] createOption_report_fields [OF c] False show ?thesis by simp
  qed
qed

lemma candidateOptions_order:
  assumes "candidateOptions d s reports pds a cfg = Inr (candidates, people)"
  shows "map (\<lambda>opt. (o_reportID opt, o_isArchivedRoom opt)) candidates
       = map (\<lambda>r. (r_reportID r, ReportUtils_isArchivedRoom d r))
           (filter (\<lambda>r. \<not> skipsReport d s cfg a r) (orderedReports d cfg reports))"
proof -
  from assms obtain m where
    "buildReportOptions d s cfg pds a (orderedReports d cfg reports) Map.empty []
       = Inr (m, candidates)"
    by (auto simp: candidateOptions_def bindE_def split: sum.splits prod.splits)
  from buildReportOptions_order [OF this] show ?thesis by simp
qed

lemma candidates_archived_last:
  assumes "candidateOptions d s reports pds a cfg = Inr (candidates, people)"
  shows "candidates = filter (\<lambda>opt. \<not> o_isArchivedRoom opt) candidates
                      @ filter o_isArchivedRoom candidates"
proof -
  let ?arch = "ReportUtils_isArchivedRoom d"
  let ?keep = "filter (\<lambda>r. \<not> skipsReport d s cfg a r)"
  have "map o_isArchivedRoom candidates
      = map snd (map (\<lambda>opt. (o_reportID opt, o_isArchivedRoom opt)) candidates)"
    by (simp add: comp_def)
  also have "\<dots> = map ?arch (?keep (orderedReports d cfg reports))"
    unfolding candidateOptions_order [OF assms] by (simp add: comp_def)
  also have "sorted \<dots>"
    by (rule sorted_filter) (simp add: orderedReports_def underscoreSortBy_def)
  finally show ?thesis by (rule sorted_bool_split)
qed

text \<open>
  C4. Whatever the configuration sorts by (the name upwards, the time of the last message
  or of the last visit downwards), \<open>orderedReports\<close> is the primary order with its archived
  rooms moved behind all other reports: the reports that are not archived rooms come
  first, in their primary order, then the archived rooms, in their primary order. The
  candidates built from it keep every archived room behind every other option.
\<close>

theorem archived_rooms_last:
  "orderedReports d cfg reports
     = filter (\<lambda>report. \<not> ReportUtils_isArchivedRoom d report) (primaryOrder cfg reports)
       @ filter (ReportUtils_isArchivedRoom d) (primaryOrder cfg reports)
   \<and> (\<forall>candidates people.
         candidateOptions d s reports pds a cfg = Inr (candidates, people)
         \<longrightarrow> candidates = filter (\<lambda>opt. \<not> o_isArchivedRoom opt) candidates
                           @ filter o_isArchivedRoom candidates)"
  using candidates_archived_last [of d s reports pds a cfg]
  by (simp add: orderedReports_def underscoreSortBy_bool)

lemma archived_example:
  "map r_reportID (primaryOrder sidebarConfig (archivedAdmins # exampleReports))
     = [Some ''2'', Some ''4'', Some ''9'', Some ''3'', Some ''1'']"
  "map r_reportID (orderedReports exampleDeps sidebarConfig (archivedAdmins # exampleReports))
     = [Some ''2'', Some ''4'', Some ''3'', Some ''1'', Some ''9'']"
  "\<not> isl (candidateOptions exampleDeps exampleState (archivedAdmins # exampleReports)
            examplePersons ''0'' sidebarConfig)"
  "map o_isArchivedRoom (candidatesOf exampleDeps exampleState (archivedAdmins # exampleReports)
            examplePersons ''0'' sidebarConfig) = [False, False, False, False, True]"
  by code_simp+

theorem archived_rooms_last_witness:
  "map r_reportID (primaryOrder sidebarConfig (archivedAdmins # exampleReports))
     = [Some ''2'', Some ''4'', Some ''9'', Some ''3'', Some ''1'']
   \<and> map r_reportID (orderedReports exampleDeps sidebarConfig (archivedAdmins # exampleReports))
     = [Some ''2'', Some ''4'', Some ''3'', Some ''1'', Some ''9'']
   \<and> (\<exists>candidates people.
         candidateOptions exampleDeps exampleState (archivedAdmins # exampleReports)
           examplePersons ''0'' sidebarConfig = Inr (candidates, people)
         \<and> map o_isArchivedRoom candidates = [False, False, False, False, True]
         \<and> candidates = filter (\<lambda>opt. \<not> o_isArchivedRoom opt) candidates
                         @ filter o_isArchivedRoom candidates)"
proof -
  note x = archived_example
  obtain candidates people where c:
    "candidateOptions exampleDeps exampleState (archivedAdmins # exampleReports)
       examplePersons ''0'' sidebarConfig = Inr (candidates, people)"
    using returns [OF x(3)] by fastforce
  have t: "map o_isArchivedRoom candidates = [False, False, False, False, True]"
    using x(4) candidatesOf_eq [OF c] by simp
  have f: "candidates = filter (\<lambda>opt. \<not> o_isArchivedRoom opt) candidates
                        @ filter o_isArchivedRoom candidates"
    using archived_rooms_last
      [of exampleDeps sidebarConfig "archivedAdmins # exampleReports" exampleState
          examplePersons "''0''"] c
    by blast
  have "\<exists>candidates people.
         candidateOptions exampleDeps exampleState (archivedAdmins # exampleReports)
           examplePersons ''0'' sidebarConfig = Inr (candidates, people)
         \<and> map o_isArchivedRoom candidates = [False, False, False, False, True]
         \<and> candidates = filter (\<lambda>opt. \<not> o_isArchivedRoom opt) candidates
                         @ filter o_isArchivedRoom candidates"
    by (rule exI [of _ candidates], rule exI [of _ people]) (intro conjI c t f)
  with x(1,2) show ?thesis by simp
qed

subsection \<open>The cap on the recent reports\<close>

lemma selectRecentReports_stops:
  "0 < maxRecentReportsToShow cfg
   \<Longrightarrow> length (recentReportOptions st) = maxRecentReportsToShow cfg
   \<Longrightarrow> selectRecentReports cfg candidates st = st"
  by (cases candidates) auto

lemma acceptOption_recent_length:
  "length (recentReportOptions (acceptOption cfg opt st)) \<le> Suc (length (recentReportOptions st))"
  by (simp add: acceptOption_def Let_def)

lemma acceptOption_acceptedCount:
  "acceptedCount (acceptOption cfg opt st) = Suc (acceptedCount st)"
  by (simp add: acceptOption_def acceptedCount_def Let_def)

lemma selectRecentReports_cap:
  "0 < maxRecentReportsToShow cfg
   \<Longrightarrow> length (recentReportOptions st) \<le> maxRecentReportsToShow cfg
   \<Longrightarrow> length (recentReportOptions (selectRecentReports cfg candidates st))
       \<le> maxRecentReportsToShow cfg"
proof (induction candidates arbitrary: st)
  case Nil
  then show ?case by simp
next
  case (Cons opt rest)
  show ?case
  proof (cases "length (recentReportOptions st) = maxRecentReportsToShow cfg")
    case True
    with Cons.prems show ?thesis by simp
  next
    case False
    with Cons.prems have lt: "length (recentReportOptions st) < maxRecentReportsToShow cfg"
      by simp
    have "length (recentReportOptions (acceptOption cfg opt st)) \<le> maxRecentReportsToShow cfg"
      using lt acceptOption_recent_length [of cfg opt st] by simp
    with Cons False show ?thesis by simp
  qed
qed

lemma selectRecentReports_unlimited:
  "maxRecentReportsToShow cfg = 0
   \<Longrightarrow> selectRecentReports cfg candidates st = foldl (examine cfg) st candidates"
  by (induction candidates arbitrary: st) (simp_all add: examine_def)

lemma acceptOption_plain:
  "\<not> prioritizePinnedReports cfg \<Longrightarrow> \<not> prioritizeIOUDebts cfg
   \<Longrightarrow> \<not> prioritizeReportsWithDraftComments cfg
   \<Longrightarrow> pinnedReportOptions (acceptOption cfg opt st) = pinnedReportOptions st
     \<and> iouDebtReportOptions (acceptOption cfg opt st) = iouDebtReportOptions st
     \<and> draftReportOptions (acceptOption cfg opt st) = draftReportOptions st"
  by (simp add: acceptOption_def Let_def)

lemma selectRecentReports_plain:
  "\<not> prioritizePinnedReports cfg \<Longrightarrow> \<not> prioritizeIOUDebts cfg
   \<Longrightarrow> \<not> prioritizeReportsWithDraftComments cfg
   \<Longrightarrow> pinnedReportOptions (selectRecentReports cfg candidates st) = pinnedReportOptions st
     \<and> iouDebtReportOptions (selectRecentReports cfg candidates st) = iouDebtReportOptions st
     \<and> draftReportOptions (selectRecentReports cfg candidates st) = draftReportOptions st"
  by (induction candidates arbitrary: st) (simp_all add: acceptOption_plain)

text \<open>While the array \<open>recentReportOptions\<close> holds fewer than the cap, the loop goes on
  to the next candidate, whatever the other arrays hold; so if fewer than the cap of the
  candidates end in that array, the loop is the selection with no limit.\<close>

lemma examine_recent_mono:
  "length (recentReportOptions st) \<le> length (recentReportOptions (examine cfg st opt))"
  by (simp add: examine_def acceptOption_def Let_def)

lemma foldl_examine_recent_mono:
  "length (recentReportOptions st)
     \<le> length (recentReportOptions (foldl (examine cfg) st candidates))"
proof (induction candidates arbitrary: st)
  case Nil
  then show ?case by simp
next
  case (Cons opt rest)
  from examine_recent_mono [of st cfg opt] Cons [of "examine cfg st opt"]
  show ?case by simp
qed

lemma selectRecentReports_continues:
  "length (recentReportOptions st) < maxRecentReportsToShow cfg
   \<Longrightarrow> selectRecentReports cfg (opt # rest) st = selectRecentReports cfg rest (examine cfg st opt)"
  by (simp add: examine_def)

lemma selectRecentReports_below_cap:
  "length (recentReportOptions (foldl (examine cfg) st candidates)) < maxRecentReportsToShow cfg
   \<Longrightarrow> selectRecentReports cfg candidates st = foldl (examine cfg) st candidates"
proof (induction candidates arbitrary: st)
  case Nil
  then show ?case by simp
next
  case (Cons opt rest)
  from Cons.prems have below: "length (recentReportOptions (foldl (examine cfg) (examine cfg st opt) rest))
      < maxRecentReportsToShow cfg" by simp
  have "length (recentReportOptions st) < maxRecentReportsToShow cfg"
    using below examine_recent_mono [of st cfg opt]
      foldl_examine_recent_mono [of "examine cfg st opt" cfg rest] by simp
  then have "selectRecentReports cfg (opt # rest) st
      = selectRecentReports cfg rest (examine cfg st opt)"
    by (rule selectRecentReports_continues)
  also have "\<dots> = foldl (examine cfg) (examine cfg st opt) rest"
    by (rule Cons.IH [OF below])
  finally show ?case by simp
qed

text \<open>
  C6 (amended). With \<open>includeRecentReports\<close> and a cap \<open>m = maxRecentReportsToShow\<close>: if
  \<open>m > 0\<close>, the loop stops once the array \<open>recentReportOptions\<close> (the options that are
  neither pinned, nor a debt, nor a draft under the priorities in force) holds \<open>m\<close>
  entries, so that array never holds more than \<open>m\<close>, and when no priority is in force at
  most \<open>m\<close> options are accepted in all. The options accepted into the pinned, debt and
  draft arrays are not counted: while \<open>recentReportOptions\<close> holds fewer than \<open>m\<close>
  entries the loop examines the next candidate and accepts it if it passes the tests,
  and if fewer than \<open>m\<close> candidates end in that array, every candidate that passes is
  accepted as with no limit. If \<open>m = 0\<close> there is no limit: the loop examines every
  candidate and accepts each that passes the tests.
\<close>

theorem cap_counts_recent_array:
  assumes "includeRecentReports cfg"
  shows "(0 < maxRecentReportsToShow cfg \<longrightarrow>
           length (recentReportOptions (selectionOf s cfg candidates)) \<le> maxRecentReportsToShow cfg
           \<and> (\<forall>st rest. length (recentReportOptions st) = maxRecentReportsToShow cfg
                 \<longrightarrow> selectRecentReports cfg rest st = st)
           \<and> (\<forall>st opt rest. length (recentReportOptions st) < maxRecentReportsToShow cfg
                 \<longrightarrow> selectRecentReports cfg (opt # rest) st
                     = selectRecentReports cfg rest (examine cfg st opt))
           \<and> (length (recentReportOptions
                  (foldl (examine cfg) (startSelection s cfg) candidates))
                 < maxRecentReportsToShow cfg
                 \<longrightarrow> selectionOf s cfg candidates
                     = foldl (examine cfg) (startSelection s cfg) candidates)
           \<and> (\<not> prioritizePinnedReports cfg \<and> \<not> prioritizeIOUDebts cfg
               \<and> \<not> prioritizeReportsWithDraftComments cfg
                 \<longrightarrow> acceptedCount (selectionOf s cfg candidates) \<le> maxRecentReportsToShow cfg))
       \<and> (maxRecentReportsToShow cfg = 0 \<longrightarrow>
           selectionOf s cfg candidates = foldl (examine cfg) (startSelection s cfg) candidates)"
proof (intro conjI impI allI)
  assume m: "0 < maxRecentReportsToShow cfg"
  have start: "length (recentReportOptions (startSelection s cfg)) \<le> maxRecentReportsToShow cfg"
    by (simp add: startSelection_def)
  show cap: "length (recentReportOptions (selectionOf s cfg candidates))
      \<le> maxRecentReportsToShow cfg"
    using assms selectRecentReports_cap [OF m start] by (simp add: selectionOf_def)
  {
    assume "\<not> prioritizePinnedReports cfg \<and> \<not> prioritizeIOUDebts cfg
               \<and> \<not> prioritizeReportsWithDraftComments cfg"
    then have "pinnedReportOptions (selectionOf s cfg candidates) = []
        \<and> iouDebtReportOptions (selectionOf s cfg candidates) = []
        \<and> draftReportOptions (selectionOf s cfg candidates) = []"
      using selectRecentReports_plain [of cfg candidates "startSelection s cfg"]
      by (simp add: selectionOf_def startSelection_def)
    with cap show "acceptedCount (selectionOf s cfg candidates) \<le> maxRecentReportsToShow cfg"
      by (simp add: acceptedCount_def)
  }
  {
    assume "length (recentReportOptions (foldl (examine cfg) (startSelection s cfg) candidates))
                 < maxRecentReportsToShow cfg"
    then show "selectionOf s cfg candidates
        = foldl (examine cfg) (startSelection s cfg) candidates"
      using assms by (simp add: selectionOf_def selectRecentReports_below_cap)
  }
  {
    fix st :: selection and rest
    assume "length (recentReportOptions st) = maxRecentReportsToShow cfg"
    with m show "selectRecentReports cfg rest st = st" by (rule selectRecentReports_stops)
  }
  fix st :: selection and opt rest
  assume "length (recentReportOptions st) < maxRecentReportsToShow cfg"
  then show "selectRecentReports cfg (opt # rest) st
      = selectRecentReports cfg rest (examine cfg st opt)"
    by (rule selectRecentReports_continues)
next
  assume "maxRecentReportsToShow cfg = 0"
  with assms show "selectionOf s cfg candidates
      = foldl (examine cfg) (startSelection s cfg) candidates"
    by (simp add: selectionOf_def selectRecentReports_unlimited)
qed

lemma capped_example:
  "includeRecentReports cappedConfig \<and> maxRecentReportsToShow cappedConfig = 2
   \<and> \<not> prioritizePinnedReports cappedConfig \<and> \<not> prioritizeIOUDebts cappedConfig
   \<and> \<not> prioritizeReportsWithDraftComments cappedConfig"
  "length (candidatesOf exampleDeps exampleState exampleReports examplePersons ''0'' cappedConfig)
     = 4"
  "acceptedCount (selectionOf exampleState cappedConfig
      (candidatesOf exampleDeps exampleState exampleReports examplePersons ''0'' cappedConfig)) = 2"
  "includeRecentReports sidebarConfig \<and> maxRecentReportsToShow sidebarConfig = 0"
  "acceptedCount (selectionOf exampleState sidebarConfig
      (candidatesOf exampleDeps exampleState exampleReports examplePersons ''0'' sidebarConfig)) = 4"
  by code_simp+

lemma roomy_example:
  "includeRecentReports roomySidebarConfig \<and> maxRecentReportsToShow roomySidebarConfig = 2"
  "length (recentReportOptions (foldl (examine roomySidebarConfig)
      (startSelection exampleState roomySidebarConfig)
      (candidatesOf exampleDeps exampleState exampleReports examplePersons ''0''
         roomySidebarConfig))) = 1"
  "acceptedCount (foldl (examine roomySidebarConfig)
      (startSelection exampleState roomySidebarConfig)
      (candidatesOf exampleDeps exampleState exampleReports examplePersons ''0''
         roomySidebarConfig)) = 4"
  by code_simp+

text \<open>With a cap of two and no priority, two of the four candidates are accepted; with
  a cap of two and the priorities of the sidebar, one candidate is plain and all four are
  accepted; with no cap, all four.\<close>

theorem cap_counts_recent_array_witness:
  "includeRecentReports cappedConfig \<and> 0 < maxRecentReportsToShow cappedConfig
   \<and> \<not> prioritizePinnedReports cappedConfig \<and> \<not> prioritizeIOUDebts cappedConfig
   \<and> \<not> prioritizeReportsWithDraftComments cappedConfig
   \<and> length (candidatesOf exampleDeps exampleState exampleReports examplePersons ''0''
        cappedConfig) = 4
   \<and> acceptedCount (selectionOf exampleState cappedConfig
        (candidatesOf exampleDeps exampleState exampleReports examplePersons ''0'' cappedConfig))
       = 2
   \<and> acceptedCount (selectionOf exampleState cappedConfig
        (candidatesOf exampleDeps exampleState exampleReports examplePersons ''0'' cappedConfig))
       \<le> maxRecentReportsToShow cappedConfig
   \<and> includeRecentReports roomySidebarConfig \<and> maxRecentReportsToShow roomySidebarConfig = 2
   \<and> length (recentReportOptions (foldl (examine roomySidebarConfig)
        (startSelection exampleState roomySidebarConfig)
        (candidatesOf exampleDeps exampleState exampleReports examplePersons ''0''
           roomySidebarConfig))) < maxRecentReportsToShow roomySidebarConfig
   \<and> selectionOf exampleState roomySidebarConfig
        (candidatesOf exampleDeps exampleState exampleReports examplePersons ''0''
           roomySidebarConfig)
       = foldl (examine roomySidebarConfig) (startSelection exampleState roomySidebarConfig)
           (candidatesOf exampleDeps exampleState exampleReports examplePersons ''0''
              roomySidebarConfig)
   \<and> acceptedCount (selectionOf exampleState roomySidebarConfig
        (candidatesOf exampleDeps exampleState exampleReports examplePersons ''0''
           roomySidebarConfig)) = 4
   \<and> includeRecentReports sidebarConfig \<and> maxRecentReportsToShow sidebarConfig = 0
   \<and> selectionOf exampleState sidebarConfig
        (candidatesOf exampleDeps exampleState exampleReports examplePersons ''0'' sidebarConfig)
       = foldl (examine sidebarConfig) (startSelection exampleState sidebarConfig)
           (candidatesOf exampleDeps exampleState exampleReports examplePersons ''0'' sidebarConfig)
   \<and> acceptedCount (selectionOf exampleState sidebarConfig
        (candidatesOf exampleDeps exampleState exampleReports examplePersons ''0'' sidebarConfig))
       = 4"
proof -
  note c = capped_example
  note r = roomy_example
  from c(1) have a: "includeRecentReports cappedConfig" by simp
  from c(4) have b: "includeRecentReports sidebarConfig" by simp
  from r(1) have e: "includeRecentReports roomySidebarConfig" by simp
  have roomy: "selectionOf exampleState roomySidebarConfig
        (candidatesOf exampleDeps exampleState exampleReports examplePersons ''0''
           roomySidebarConfig)
       = foldl (examine roomySidebarConfig) (startSelection exampleState roomySidebarConfig)
           (candidatesOf exampleDeps exampleState exampleReports examplePersons ''0''
              roomySidebarConfig)"
    using cap_counts_recent_array [OF e, of exampleState
        "candidatesOf exampleDeps exampleState exampleReports examplePersons ''0''
           roomySidebarConfig"] r
    by simp
  show ?thesis
    using cap_counts_recent_array [OF a, of exampleState
        "candidatesOf exampleDeps exampleState exampleReports examplePersons ''0'' cappedConfig"]
      cap_counts_recent_array [OF b, of exampleState
        "candidatesOf exampleDeps exampleState exampleReports examplePersons ''0'' sidebarConfig"]
      c r roomy
    by simp
qed

text \<open>The claim as stated (at most \<open>m\<close> options accepted over all arrays) fails: with the
  priorities of the sidebar and a cap of one, the draft, the pinned chat and the debt
  come before the plain chat, and all four candidates are accepted and returned.\<close>

theorem cap_ignores_prioritized_counterexample:
  "includeRecentReports cappedSidebarConfig \<and> maxRecentReportsToShow cappedSidebarConfig = 1
   \<and> length (candidatesOf exampleDeps exampleState exampleReports examplePersons ''0''
        cappedSidebarConfig) = 4
   \<and> acceptedCount (selectionOf exampleState cappedSidebarConfig
        (candidatesOf exampleDeps exampleState exampleReports examplePersons ''0''
           cappedSidebarConfig)) = 4
   \<and> (case getOptions exampleDeps exampleState exampleReports examplePersons ''0''
               cappedSidebarConfig of
         Inl e \<Rightarrow> 0 | Inr res \<Rightarrow> length (recentReports res)) = 4"
  by code_simp

subsection \<open>The order of the recent list\<close>

text \<open>Each array takes its options in the order of the candidates.\<close>

lemma bucket_order:
  assumes step: "\<And>opt st. g (acceptOption cfg opt st) = g st
      \<or> g (acceptOption cfg opt st) = g st @ [opt]"
  shows "\<exists>xs. g (selectRecentReports cfg candidates st) = g st @ xs \<and> subseq xs candidates"
proof (induction candidates arbitrary: st)
  case Nil
  then show ?case by simp
next
  case (Cons opt rest)
  show ?case
  proof (cases "length (recentReportOptions st) > 0
      \<and> length (recentReportOptions st) = maxRecentReportsToShow cfg")
    case True
    then have "selectRecentReports cfg (opt # rest) st = st" by auto
    then show ?thesis by simp
  next
    case stay: False
    show ?thesis
    proof (cases "passesFilters cfg (loginOptionsToExclude st) opt")
      case False
      with stay Cons.IH [of st] show ?thesis by auto
    next
      case True
      obtain xs where xs: "g (selectRecentReports cfg rest (acceptOption cfg opt st))
          = g (acceptOption cfg opt st) @ xs" "subseq xs rest"
        using Cons.IH [of "acceptOption cfg opt st"] by blast
      from step [of opt st] show ?thesis
      proof
        assume "g (acceptOption cfg opt st) = g st"
        with xs stay True show ?thesis by auto
      next
        assume "g (acceptOption cfg opt st) = g st @ [opt]"
        with xs stay True
        have "g (selectRecentReports cfg (opt # rest) st) = g st @ (opt # xs)"
          and "subseq (opt # xs) (opt # rest)" by auto
        then show ?thesis by blast
      qed
    qed
  qed
qed

lemma recent_order:
  "subseq (recentReportOptions (selectionOf s cfg candidates)) candidates"
proof (cases "includeRecentReports cfg")
  case True
  have "\<exists>xs. recentReportOptions (selectRecentReports cfg candidates (startSelection s cfg))
      = recentReportOptions (startSelection s cfg) @ xs \<and> subseq xs candidates"
    by (rule bucket_order) (simp add: acceptOption_def Let_def)
  with True show ?thesis by (auto simp: selectionOf_def startSelection_def)
next
  case False
  then show ?thesis by (simp add: selectionOf_def startSelection_def)
qed

text \<open>
  C1 (amended). With \<open>prioritizePinnedReports\<close>, \<open>prioritizeIOUDebts\<close> and
  \<open>prioritizeReportsWithDraftComments\<close> all enabled, and unless a search is under way
  with \<open>prioritizeDefaultRoomsInSearch\<close> or \<open>sortByReportTypeInSearch\<close> enabled, the recent
  list that \<open>getOptions\<close> returns is the pinned array sorted by text, then the debt array
  sorted by amount from the largest, then the draft array sorted by text, then the other
  accepted options, which stand in the order of the candidates.
\<close>

theorem recombination_order:
  assumes "prioritizePinnedReports cfg" "prioritizeIOUDebts cfg"
    "prioritizeReportsWithDraftComments cfg"
    and "\<not> (prioritizeDefaultRoomsInSearch cfg \<and> searchValue cfg \<noteq> [])"
    and "\<not> (sortByReportTypeInSearch cfg \<and> searchValue cfg \<noteq> [])"
    and "candidateOptions d s reports pds activeReportID cfg = Inr (candidates, people)"
    and "getOptions d s reports pds activeReportID cfg = Inr res"
  shows "recentReports res = recombinationOrder (selectionOf s cfg candidates)
    \<and> subseq (recentReportOptions (selectionOf s cfg candidates)) candidates"
proof -
  from assms(6,7) have "optionsFrom d s pds cfg candidates people = Inr res"
    by (simp add: getOptions_def bindE_def)
  with assms(5) have "recentReports res = recombine cfg (selectionOf s cfg candidates)"
    by (auto simp: optionsFrom_def bindE_def Let_def split: sum.splits)
  with assms(1-4) have "recentReports res = recombinationOrder (selectionOf s cfg candidates)"
    by (auto simp: recombine_def recombinationOrder_def Let_def)
  then show ?thesis by (simp add: recent_order)
qed

lemma sidebar_example:
  "\<not> isl (getOptions exampleDeps exampleState exampleReports examplePersons ''0'' sidebarConfig)"
  "\<not> isl (candidateOptions exampleDeps exampleState exampleReports examplePersons ''0''
            sidebarConfig)"
  "map o_text (candidatesOf exampleDeps exampleState exampleReports examplePersons ''0''
      sidebarConfig) = [''Cat'', ''Ann'', ''Bob'', ''Dan'']"
  "(case getOptions exampleDeps exampleState exampleReports examplePersons ''0'' sidebarConfig of
      Inl e \<Rightarrow> [] | Inr res \<Rightarrow> map o_text (recentReports res))
     = [''Ann'', ''Bob'', ''Cat'', ''Dan'']"
  by code_simp+

text \<open>The sidebar's configuration on the four chats: the candidates come by the time of
  their last message, the result has the pinned chat, the debt, the draft and the plain
  chat in this order.\<close>

theorem recombination_order_witness:
  "prioritizePinnedReports sidebarConfig \<and> prioritizeIOUDebts sidebarConfig
   \<and> prioritizeReportsWithDraftComments sidebarConfig
   \<and> (\<exists>candidates people res.
        candidateOptions exampleDeps exampleState exampleReports examplePersons ''0'' sidebarConfig
          = Inr (candidates, people)
        \<and> getOptions exampleDeps exampleState exampleReports examplePersons ''0'' sidebarConfig
          = Inr res
        \<and> map o_text candidates = [''Cat'', ''Ann'', ''Bob'', ''Dan'']
        \<and> map o_text (recentReports res) = [''Ann'', ''Bob'', ''Cat'', ''Dan'']
        \<and> recentReports res = recombinationOrder (selectionOf exampleState sidebarConfig candidates))"
proof -
  have flags: "prioritizePinnedReports sidebarConfig" "prioritizeIOUDebts sidebarConfig"
    "prioritizeReportsWithDraftComments sidebarConfig"
    "\<not> (prioritizeDefaultRoomsInSearch sidebarConfig \<and> searchValue sidebarConfig \<noteq> [])"
    "\<not> (sortByReportTypeInSearch sidebarConfig \<and> searchValue sidebarConfig \<noteq> [])"
    by (simp_all add: sidebarConfig_def defaultConfig_def)
  obtain res where res:
    "getOptions exampleDeps exampleState exampleReports examplePersons ''0'' sidebarConfig = Inr res"
    using returns [OF sidebar_example(1)] by blast
  obtain candidates people where c:
    "candidateOptions exampleDeps exampleState exampleReports examplePersons ''0'' sidebarConfig
       = Inr (candidates, people)"
    using returns [OF sidebar_example(2)] by fastforce
  have t1: "map o_text candidates = [''Cat'', ''Ann'', ''Bob'', ''Dan'']"
    using sidebar_example(3) candidatesOf_eq [OF c] by simp
  have t2: "map o_text (recentReports res) = [''Ann'', ''Bob'', ''Cat'', ''Dan'']"
    using sidebar_example(4) res by simp
  note eq = recombination_order [OF flags c res, THEN conjunct1]
  have "\<exists>candidates people res.
        candidateOptions exampleDeps exampleState exampleReports examplePersons ''0'' sidebarConfig
          = Inr (candidates, people)
        \<and> getOptions exampleDeps exampleState exampleReports examplePersons ''0'' sidebarConfig
          = Inr res
        \<and> map o_text candidates = [''Cat'', ''Ann'', ''Bob'', ''Dan'']
        \<and> map o_text (recentReports res) = [''Ann'', ''Bob'', ''Cat'', ''Dan'']
        \<and> recentReports res = recombinationOrder (selectionOf exampleState sidebarConfig candidates)"
    by (rule exI [of _ candidates], rule exI [of _ people], rule exI [of _ res])
       (intro conjI c res t1 t2 eq)
  with flags(1-3) show ?thesis by simp
qed

lemma room_search_example:
  "\<not> isl (getOptions exampleDeps exampleState roomSearchReports examplePersons ''0''
            roomSearchConfig)"
  "\<not> isl (candidateOptions exampleDeps exampleState roomSearchReports examplePersons ''0''
            roomSearchConfig)"
  "map o_text (recombinationOrder (selectionOf exampleState roomSearchConfig
      (candidatesOf exampleDeps exampleState roomSearchReports examplePersons ''0''
         roomSearchConfig))) = [''Ann'', ''#admins'']"
  "(case getOptions exampleDeps exampleState roomSearchReports examplePersons ''0''
           roomSearchConfig of
      Inl e \<Rightarrow> [] | Inr res \<Rightarrow> map o_text (recentReports res)) = [''#admins'', ''Ann'']"
  "prioritizePinnedReports roomSearchConfig \<and> prioritizeIOUDebts roomSearchConfig
   \<and> prioritizeReportsWithDraftComments roomSearchConfig"
  by code_simp+

text \<open>The claim as stated (for every input with the three priorities) fails: in a
  search with \<open>prioritizeDefaultRoomsInSearch\<close> the rooms are moved to the front
  (lines 625-629), here the room \<open>#admins\<close> before the pinned chat with Ann.\<close>

theorem recombination_order_counterexample:
  "prioritizePinnedReports roomSearchConfig \<and> prioritizeIOUDebts roomSearchConfig
   \<and> prioritizeReportsWithDraftComments roomSearchConfig
   \<and> (\<exists>candidates people res.
        candidateOptions exampleDeps exampleState roomSearchReports examplePersons ''0''
          roomSearchConfig = Inr (candidates, people)
        \<and> getOptions exampleDeps exampleState roomSearchReports examplePersons ''0''
          roomSearchConfig = Inr res
        \<and> map o_text (recentReports res) = [''#admins'', ''Ann'']
        \<and> map o_text (recombinationOrder (selectionOf exampleState roomSearchConfig candidates))
          = [''Ann'', ''#admins'']
        \<and> recentReports res
          \<noteq> recombinationOrder (selectionOf exampleState roomSearchConfig candidates))"
proof -
  note x = room_search_example
  obtain res where res:
    "getOptions exampleDeps exampleState roomSearchReports examplePersons ''0'' roomSearchConfig
       = Inr res"
    using returns [OF x(1)] by blast
  obtain candidates people where c:
    "candidateOptions exampleDeps exampleState roomSearchReports examplePersons ''0''
       roomSearchConfig = Inr (candidates, people)"
    using returns [OF x(2)] by fastforce
  have t1: "map o_text (recentReports res) = [''#admins'', ''Ann'']"
    using x(4) res by simp
  have t2: "map o_text (recombinationOrder (selectionOf exampleState roomSearchConfig candidates))
      = [''Ann'', ''#admins'']"
    using x(3) candidatesOf_eq [OF c] by simp
  have t3: "recentReports res
      \<noteq> recombinationOrder (selectionOf exampleState roomSearchConfig candidates)"
    using t1 t2 by auto
  have "\<exists>candidates people res.
        candidateOptions exampleDeps exampleState roomSearchReports examplePersons ''0''
          roomSearchConfig = Inr (candidates, people)
        \<and> getOptions exampleDeps exampleState roomSearchReports examplePersons ''0''
          roomSearchConfig = Inr res
        \<and> map o_text (recentReports res) = [''#admins'', ''Ann'']
        \<and> map o_text (recombinationOrder (selectionOf exampleState roomSearchConfig candidates))
          = [''Ann'', ''#admins'']
        \<and> recentReports res
          \<noteq> recombinationOrder (selectionOf exampleState roomSearchConfig candidates)"
    by (rule exI [of _ candidates], rule exI [of _ people], rule exI [of _ res])
       (intro conjI c res t1 t2 t3)
  with x(5) show ?thesis by simp
qed

subsection \<open>Recent reports and personal details\<close>

lemma acceptOption_excludesAccepted:
  "excludesAccepted st \<Longrightarrow> excludesAccepted (acceptOption cfg opt st)"
  by (auto simp: excludesAccepted_def acceptOption_def Let_def)

lemma selectRecentReports_excludesAccepted:
  "excludesAccepted st \<Longrightarrow> excludesAccepted (selectRecentReports cfg candidates st)"
  by (induction candidates arbitrary: st) (simp_all add: acceptOption_excludesAccepted)

text \<open>Every accepted option with a login has it among the logins to exclude when the
  loop ends, which is before the personal details are selected.\<close>

lemma selectionOf_excludesAccepted: "excludesAccepted (selectionOf s cfg candidates)"
proof -
  have "excludesAccepted (startSelection s cfg)"
    by (simp add: excludesAccepted_def startSelection_def)
  then show ?thesis by (simp add: selectionOf_def selectRecentReports_excludesAccepted)
qed

lemma set_recombine:
  "set (recombine cfg st) \<subseteq> set (recentReportOptions st) \<union> set (pinnedReportOptions st)
     \<union> set (iouDebtReportOptions st) \<union> set (draftReportOptions st)"
  by (auto simp: recombine_def Let_def lodashOrderByAsc_def lodashOrderByDesc_def
      split: if_splits)

lemma selectPersonalDetails_not_excluded:
  "opt \<in> set (selectPersonalDetails cfg excluded people) \<Longrightarrow> o_login opt \<notin> set excluded"
  by (auto simp: selectPersonalDetails_def list_ex_iff split: if_splits)

text \<open>
  C9. No login is the login both of an entry of the returned \<open>recentReports\<close> and of an
  entry of the returned \<open>personalDetails\<close>: every accepted recent entry that has a login
  is among the logins to exclude when the loop ends, before the personal details are
  selected. A login is a string that is not empty: the empty string is what lines 568,
  573 and 599 take for no login.
\<close>

theorem recent_and_personal_details_disjoint:
  assumes "candidateOptions d s reports pds activeReportID cfg = Inr (candidates, people)"
    and "getOptions d s reports pds activeReportID cfg = Inr res" and "login \<noteq> []"
  shows "excludesAccepted (selectionOf s cfg candidates)
    \<and> \<not> (Some login \<in> o_login ` set (recentReports res)
          \<and> Some login \<in> o_login ` set (personalDetails res))"
proof (intro conjI notI)
  show "excludesAccepted (selectionOf s cfg candidates)"
    by (rule selectionOf_excludesAccepted)
next
  assume both: "Some login \<in> o_login ` set (recentReports res)
            \<and> Some login \<in> o_login ` set (personalDetails res)"
  define st where "st = selectionOf s cfg candidates"
  from assms(1,2) have "optionsFrom d s pds cfg candidates people = Inr res"
    by (simp add: getOptions_def bindE_def)
  then have res: "personalDetails res = [] \<or>
      (recentReports res = recombine cfg st
       \<and> personalDetails res = selectPersonalDetails cfg (loginOptionsToExclude st) people)"
    unfolding st_def
    by (auto simp: optionsFrom_def bindE_def Let_def split: sum.splits if_splits)
  from both have "personalDetails res \<noteq> []" by auto
  with res have r: "recentReports res = recombine cfg st"
    and p: "personalDetails res = selectPersonalDetails cfg (loginOptionsToExclude st) people"
    by auto
  from both r obtain opt where opt: "opt \<in> set (recombine cfg st)" "o_login opt = Some login"
    by auto
  from opt(1) set_recombine [of cfg st] have "opt \<in> set (recentReportOptions st)
     \<union> set (pinnedReportOptions st) \<union> set (iouDebtReportOptions st)
     \<union> set (draftReportOptions st)"
    by blast
  moreover have "truthy (o_login opt)" using opt(2) assms(3) by (simp add: truthy_def)
  moreover have "excludesAccepted st" unfolding st_def by (rule selectionOf_excludesAccepted)
  ultimately have "Some login \<in> set (loginOptionsToExclude st)"
    using opt(2) unfolding excludesAccepted_def by metis
  moreover from both p obtain detail where
    "detail \<in> set (selectPersonalDetails cfg (loginOptionsToExclude st) people)"
    "o_login detail = Some login" by auto
  ultimately show False using selectPersonalDetails_not_excluded by metis
qed

lemma people_example:
  "\<not> isl (getOptions exampleDeps exampleState exampleReports examplePersons ''0'' peopleConfig)"
  "\<not> isl (candidateOptions exampleDeps exampleState exampleReports examplePersons ''0''
            peopleConfig)"
  "(case getOptions exampleDeps exampleState exampleReports examplePersons ''0'' peopleConfig of
      Inl e \<Rightarrow> [] | Inr res \<Rightarrow> map o_login (recentReports res))
     = [Some ''cat@x.com'', Some ''ann@x.com'', Some ''bob@x.com'', Some ''dan@x.com'']"
  "(case getOptions exampleDeps exampleState exampleReports examplePersons ''0'' peopleConfig of
      Inl e \<Rightarrow> [] | Inr res \<Rightarrow> map o_login (personalDetails res)) = [Some ''eve@x.com'']"
  by code_simp+

text \<open>The four people with a chat are recent reports; of the personal details only Eve
  is left.\<close>

theorem recent_and_personal_details_disjoint_witness:
  "\<exists>candidates people res.
     candidateOptions exampleDeps exampleState exampleReports examplePersons ''0'' peopleConfig
       = Inr (candidates, people)
     \<and> getOptions exampleDeps exampleState exampleReports examplePersons ''0'' peopleConfig
       = Inr res
     \<and> map o_login (recentReports res)
         = [Some ''cat@x.com'', Some ''ann@x.com'', Some ''bob@x.com'', Some ''dan@x.com'']
     \<and> map o_login (personalDetails res) = [Some ''eve@x.com'']
     \<and> ''ann@x.com'' \<noteq> []
     \<and> \<not> (Some ''ann@x.com'' \<in> o_login ` set (recentReports res)
           \<and> Some ''ann@x.com'' \<in> o_login ` set (personalDetails res))"
proof -
  note x = people_example
  obtain res where res:
    "getOptions exampleDeps exampleState exampleReports examplePersons ''0'' peopleConfig = Inr res"
    using returns [OF x(1)] by blast
  obtain candidates people where c:
    "candidateOptions exampleDeps exampleState exampleReports examplePersons ''0'' peopleConfig
       = Inr (candidates, people)"
    using returns [OF x(2)] by fastforce
  have n: "''ann@x.com'' \<noteq> []" by simp
  show ?thesis
    by (rule exI [of _ candidates], rule exI [of _ people], rule exI [of _ res])
       (use x(3,4) c res recent_and_personal_details_disjoint [OF c res n] in simp)
qed

subsection \<open>The invite suggestion\<close>

lemma inviteOption_Some:
  assumes "inviteOption d s cfg pds recentOptions personalDetailsOptions excluded
      = Inr (Some invite)"
  shows "searchValue cfg \<noteq> []
    \<and> ((Str_isValidEmail d (searchValue cfg) \<and> \<not> Str_isDomainEmail d (searchValue cfg))
        \<or> Str_isValidPhone d (searchValue cfg))
    \<and> (\<forall>opt \<in> set recentOptions \<union> set personalDetailsOptions.
          o_login opt \<noteq> Some (toLowerCase (searchValue cfg)))
    \<and> isCurrentUser d s (Some \<lparr>ud_login = searchValue cfg\<rparr>) = Inr False
    \<and> Some (searchValue cfg) \<notin> set (selectedOptions cfg)
    \<and> Some (toLowerCase (addSMSDomainIfPhoneNumber d s (searchValue cfg))) \<notin> set excluded
    \<and> (searchValue cfg = CONST_EMAIL_CHRONOS d \<longrightarrow> Permissions_canUseChronos d (betas cfg))"
proof -
  from assms have q: "searchValue cfg \<noteq> []"
    and m: "\<not> list_ex (\<lambda>option. o_login option = Some (toLowerCase (searchValue cfg)))
              (personalDetailsOptions @ recentOptions)"
    by (auto simp: inviteOption_def Let_def split: if_splits)
  from assms q m obtain current where
    c: "isCurrentUser d s (Some \<lparr>ud_login = searchValue cfg\<rparr>) = Inr current"
    by (cases "isCurrentUser d s (Some \<lparr>ud_login = searchValue cfg\<rparr>)")
       (auto simp: inviteOption_def Let_def bindE_def split: if_splits)
  from assms q m c have rest: "\<not> current
      \<and> list_all (\<lambda>login. login \<noteq> Some (searchValue cfg)) (selectedOptions cfg)
      \<and> ((Str_isValidEmail d (searchValue cfg) \<and> \<not> Str_isDomainEmail d (searchValue cfg))
          \<or> Str_isValidPhone d (searchValue cfg))
      \<and> \<not> list_ex (\<lambda>login. login
              = Some (toLowerCase (addSMSDomainIfPhoneNumber d s (searchValue cfg)))) excluded
      \<and> (searchValue cfg \<noteq> CONST_EMAIL_CHRONOS d \<or> Permissions_canUseChronos d (betas cfg))"
    by (simp add: inviteOption_def Let_def bindE_def split: if_splits)
  from m have "\<forall>opt \<in> set recentOptions \<union> set personalDetailsOptions.
          o_login opt \<noteq> Some (toLowerCase (searchValue cfg))"
    by (auto simp: list_ex_iff)
  with q c rest show ?thesis by (auto simp: list_all_iff list_ex_iff)
qed

lemma optionsFrom_result:
  assumes "optionsFrom d s pds cfg candidates people = Inr res"
  shows "inviteOption d s cfg pds (recombine cfg (selectionOf s cfg candidates))
           (selectPersonalDetails cfg (loginOptionsToExclude (selectionOf s cfg candidates)) people)
           (loginOptionsToExclude (selectionOf s cfg candidates)) = Inr (userToInvite res)
    \<and> set (recentReports res) \<union> set (personalDetails res)
        = set (recombine cfg (selectionOf s cfg candidates))
          \<union> set (selectPersonalDetails cfg
                   (loginOptionsToExclude (selectionOf s cfg candidates)) people)"
  using assms
  by (auto simp: optionsFrom_def Let_def bindE_def lodashOrderByAsc_def
      split: sum.splits if_splits)

text \<open>The logins to exclude only grow in the loop: the selected options, the current
  user and \<open>excludeLogins\<close> are among them at its end.\<close>

lemma exclusions_grow:
  "set (loginOptionsToExclude st)
     \<subseteq> set (loginOptionsToExclude (selectRecentReports cfg candidates st))"
proof (induction candidates arbitrary: st)
  case Nil
  then show ?case by simp
next
  case (Cons opt rest)
  have "set (loginOptionsToExclude st) \<subseteq> set (loginOptionsToExclude (acceptOption cfg opt st))"
    by (auto simp: acceptOption_def Let_def)
  with Cons [of st] Cons [of "acceptOption cfg opt st"] show ?case by auto
qed

lemma exclusions_from_start:
  "set (selectedOptions cfg) \<union> {currentUserLogin s} \<union> Some ` set (excludeLogins cfg)
     \<subseteq> set (loginOptionsToExclude (selectionOf s cfg candidates))"
proof -
  have "set (loginOptionsToExclude (startSelection s cfg))
     \<subseteq> set (loginOptionsToExclude (selectionOf s cfg candidates))"
    by (simp add: selectionOf_def exclusions_grow)
  then show ?thesis by (auto simp: startSelection_def)
qed

text \<open>What the code ensures of a suggestion: the query is not empty, is a valid address
  that is no domain address or a valid phone number, is not the current user nor the
  login of a selected option; no returned option has the lowercased query for its login,
  and the lowercased query with its SMS domain is not among the logins to exclude.\<close>

lemma invite_only_for_new_logins:
  assumes "candidateOptions d s reports pds activeReportID cfg = Inr (candidates, people)"
    and "getOptions d s reports pds activeReportID cfg = Inr res"
    and "userToInvite res \<noteq> None"
  shows "searchValue cfg \<noteq> []
    \<and> ((Str_isValidEmail d (searchValue cfg) \<and> \<not> Str_isDomainEmail d (searchValue cfg))
        \<or> Str_isValidPhone d (searchValue cfg))
    \<and> (\<forall>opt \<in> set (recentReports res) \<union> set (personalDetails res).
          o_login opt \<noteq> Some (toLowerCase (searchValue cfg)))
    \<and> isCurrentUser d s (Some \<lparr>ud_login = searchValue cfg\<rparr>) = Inr False
    \<and> Some (searchValue cfg) \<notin> set (selectedOptions cfg)
    \<and> Some (toLowerCase (addSMSDomainIfPhoneNumber d s (searchValue cfg)))
        \<notin> set (loginOptionsToExclude (selectionOf s cfg candidates))
    \<and> Some (toLowerCase (addSMSDomainIfPhoneNumber d s (searchValue cfg)))
        \<notin> set (selectedOptions cfg) \<union> {currentUserLogin s} \<union> Some ` set (excludeLogins cfg)"
proof -
  from assms(1,2) have o: "optionsFrom d s pds cfg candidates people = Inr res"
    by (simp add: getOptions_def bindE_def)
  from assms(3) obtain invite where i: "userToInvite res = Some invite" by auto
  note r = optionsFrom_result [OF o]
  from r i have "inviteOption d s cfg pds (recombine cfg (selectionOf s cfg candidates))
           (selectPersonalDetails cfg (loginOptionsToExclude (selectionOf s cfg candidates)) people)
           (loginOptionsToExclude (selectionOf s cfg candidates)) = Inr (Some invite)"
    by simp
  from inviteOption_Some [OF this] r exclusions_from_start [of cfg s candidates]
  show ?thesis by auto
qed

lemma capital_example:
  "\<not> isl (getOptions exampleDeps exampleState [] capitalPersons ''0'' capitalConfig)"
  "(case getOptions exampleDeps exampleState [] capitalPersons ''0'' capitalConfig of
      Inl e \<Rightarrow> None | Inr res \<Rightarrow> map_option o_login (userToInvite res))
     = Some (Some ''Bob@x.com'')"
  "(case getOptions exampleDeps exampleState [] capitalPersons ''0'' capitalConfig of
      Inl e \<Rightarrow> [] | Inr res \<Rightarrow> map o_login (personalDetails res)) = [Some ''Bob@x.com'']"
  "searchValue capitalConfig = ''Bob@x.com''"
  by code_simp+

text \<open>Where the logins of the returned options and the logins to exclude are in lower
  case, this is what the claim says: the query is no returned login, and the query with
  its SMS domain is not among the logins to exclude.\<close>

lemma invite_claim_on_lowercase_logins:
  assumes "candidateOptions d s reports pds activeReportID cfg = Inr (candidates, people)"
    and "getOptions d s reports pds activeReportID cfg = Inr res"
    and "userToInvite res \<noteq> None"
    and "\<forall>opt \<in> set (recentReports res) \<union> set (personalDetails res).
           \<forall>login. o_login opt = Some login \<longrightarrow> toLowerCase login = login"
    and "\<forall>login. Some login \<in> set (loginOptionsToExclude (selectionOf s cfg candidates))
           \<longrightarrow> toLowerCase login = login"
  shows "(\<forall>opt \<in> set (recentReports res) \<union> set (personalDetails res).
            o_login opt \<noteq> Some (searchValue cfg))
    \<and> Some (addSMSDomainIfPhoneNumber d s (searchValue cfg))
        \<notin> set (loginOptionsToExclude (selectionOf s cfg candidates))"
proof -
  note t = invite_only_for_new_logins [OF assms(1-3)]
  show ?thesis
  proof (intro conjI ballI notI)
    fix opt
    assume o: "opt \<in> set (recentReports res) \<union> set (personalDetails res)"
      and e: "o_login opt = Some (searchValue cfg)"
    with assms(4) have "toLowerCase (searchValue cfg) = searchValue cfg" by blast
    with t o e show False by auto
  next
    assume e: "Some (addSMSDomainIfPhoneNumber d s (searchValue cfg))
        \<in> set (loginOptionsToExclude (selectionOf s cfg candidates))"
    with assms(5) have "toLowerCase (addSMSDomainIfPhoneNumber d s (searchValue cfg))
        = addSMSDomainIfPhoneNumber d s (searchValue cfg)" by blast
    with t e show False by auto
  qed
qed

lemma excluded_capital_example:
  "\<not> isl (getOptions exampleDeps exampleState [] [] ''0'' excludedCapitalConfig)"
  "(case getOptions exampleDeps exampleState [] [] ''0'' excludedCapitalConfig of
      Inl e \<Rightarrow> None | Inr res \<Rightarrow> map_option o_login (userToInvite res))
     = Some (Some ''Bob@x.com'')"
  "addSMSDomainIfPhoneNumber exampleDeps exampleState (searchValue excludedCapitalConfig)
     \<in> set (excludeLogins excludedCapitalConfig)"
  "(case getOptions exampleDeps exampleState [] capitalPersons ''0'' capitalConfig of
      Inl e \<Rightarrow> [] | Inr res \<Rightarrow> map (reportTypeRank capitalConfig) (personalDetails res)) = [0]"
  by code_simp+

text \<open>
  C5 (the code departs from the claim). The claim: \<open>userToInvite\<close> is not \<open>null\<close> only if
  the query is not empty, is a valid address or phone number, equals the login of no
  returned option, is not the current user, is not selected and, with its SMS domain, is
  not among the logins to exclude. Lines 650 and 655 compare a login as it is stored with
  the lowercased query, where lines 681, 393 and 398 lowercase both sides. For the login
  \<open>Bob@x.com\<close> and the query \<open>Bob@x.com\<close> the personal detail is returned, ranked by line
  681 as the exact match, and the suggestion to invite the same address is made; it is
  made as well when the address is in \<open>excludeLogins\<close>.
\<close>

theorem invite_for_listed_login:
  "(\<exists>res. getOptions exampleDeps exampleState [] capitalPersons ''0'' capitalConfig = Inr res
      \<and> userToInvite res \<noteq> None
      \<and> Some (searchValue capitalConfig) \<in> o_login ` set (personalDetails res)
      \<and> map (reportTypeRank capitalConfig) (personalDetails res) = [0])
   \<and> (\<exists>res. getOptions exampleDeps exampleState [] [] ''0'' excludedCapitalConfig = Inr res
      \<and> userToInvite res \<noteq> None
      \<and> addSMSDomainIfPhoneNumber exampleDeps exampleState (searchValue excludedCapitalConfig)
          \<in> set (excludeLogins excludedCapitalConfig))"
proof -
  note x = capital_example
  note y = excluded_capital_example
  obtain res where res:
    "getOptions exampleDeps exampleState [] capitalPersons ''0'' capitalConfig = Inr res"
    using returns [OF x(1)] by blast
  from x(2) res have u: "userToInvite res \<noteq> None" by auto
  from x(3) res have "map o_login (personalDetails res) = [Some ''Bob@x.com'']" by simp
  then have "Some ''Bob@x.com'' \<in> set (map o_login (personalDetails res))" by simp
  then have l: "Some (searchValue capitalConfig) \<in> o_login ` set (personalDetails res)"
    using x(4) by simp
  from y(4) res have k: "map (reportTypeRank capitalConfig) (personalDetails res) = [0]" by simp
  obtain res2 where res2:
    "getOptions exampleDeps exampleState [] [] ''0'' excludedCapitalConfig = Inr res2"
    using returns [OF y(1)] by blast
  from y(2) res2 have u2: "userToInvite res2 \<noteq> None" by auto
  have first: "\<exists>res. getOptions exampleDeps exampleState [] capitalPersons ''0'' capitalConfig = Inr res
      \<and> userToInvite res \<noteq> None
      \<and> Some (searchValue capitalConfig) \<in> o_login ` set (personalDetails res)
      \<and> map (reportTypeRank capitalConfig) (personalDetails res) = [0]"
    by (rule exI [of _ res]) (intro conjI res u l k)
  have second: "\<exists>res. getOptions exampleDeps exampleState [] [] ''0'' excludedCapitalConfig = Inr res
      \<and> userToInvite res \<noteq> None
      \<and> addSMSDomainIfPhoneNumber exampleDeps exampleState (searchValue excludedCapitalConfig)
          \<in> set (excludeLogins excludedCapitalConfig)"
    by (rule exI [of _ res2]) (intro conjI res2 u2 y(3))
  from first second show ?thesis by (rule conjI)
qed

subsection \<open>Pinned archived default rooms\<close>

text \<open>No option that \<open>createOption\<close> returns has the property \<open>isDefaultRoom\<close>, so the
  test of line 588 never holds an option back from the pinned array.\<close>

lemma createOption_isDefaultRoom:
  "createOption d s logins pds report ra preview force = Inr opt \<Longrightarrow> o_isDefaultRoom opt = None"
  unfolding createOption_def
  by (auto simp: bindE_def readProp_def Let_def
      split: sum.splits option.splits prod.splits if_splits)

lemma acceptOption_pinned:
  "prioritizePinnedReports cfg \<Longrightarrow> o_isPinned opt \<Longrightarrow> o_isDefaultRoom opt = None
   \<Longrightarrow> pinnedReportOptions (acceptOption cfg opt st) = pinnedReportOptions st @ [opt]"
  by (simp add: acceptOption_def Let_def truthyBool_def)

lemma buildReportOptions_isDefaultRoom:
  "buildReportOptions d s cfg pds a reports m acc = Inr (m', opts)
   \<Longrightarrow> \<forall>opt \<in> set acc. o_isDefaultRoom opt = None
   \<Longrightarrow> \<forall>opt \<in> set opts. o_isDefaultRoom opt = None"
proof (induction reports arbitrary: m acc)
  case Nil
  then show ?case by simp
next
  case (Cons report rest)
  show ?case
  proof (cases "skipsReport d s cfg a report")
    case True
    with Cons show ?thesis by simp
  next
    case False
    with Cons.prems(1) obtain opt m1 where
      c: "createOption d s (r_participants report) pds (Some report) (reportActions cfg)
            (showChatPreviewLine cfg)
            (if ReportUtils_isPolicyExpenseChat d report
             then \<not> r_isOwnPolicyExpenseChat report \<and> searchValue cfg \<noteq> []
             else forcePolicyNamePreview cfg) = Inr opt"
      and b: "buildReportOptions d s cfg pds a rest m1 (acc @ [opt]) = Inr (m', opts)"
      by (auto simp: Let_def split: sum.splits)
    have "\<forall>x \<in> set (acc @ [opt]). o_isDefaultRoom x = None"
      using Cons.prems(2) createOption_isDefaultRoom [OF c] by simp
    from Cons.IH [OF b this] show ?thesis .
  qed
qed

lemma candidates_isDefaultRoom:
  assumes "candidateOptions d s reports pds a cfg = Inr (candidates, people)"
  shows "\<forall>opt \<in> set candidates. o_isDefaultRoom opt = None"
proof -
  from assms obtain m where
    "buildReportOptions d s cfg pds a (orderedReports d cfg reports) Map.empty []
       = Inr (m, candidates)"
    by (auto simp: candidateOptions_def bindE_def split: sum.splits prod.splits)
  from buildReportOptions_isDefaultRoom [OF this] show ?thesis by simp
qed

text \<open>So with \<open>prioritizePinnedReports\<close> every pinned candidate that the loop accepts goes
  to the pinned array, archived default room or not.\<close>

lemma pinned_candidate_is_prioritized:
  assumes "candidateOptions d s reports pds a cfg = Inr (candidates, people)"
    and "opt \<in> set candidates" and "prioritizePinnedReports cfg" and "o_isPinned opt"
  shows "pinnedReportOptions (acceptOption cfg opt st) = pinnedReportOptions st @ [opt]"
  using assms(2-4) candidates_isDefaultRoom [OF assms(1)] by (simp add: acceptOption_pinned)

text \<open>
  C7 (the code departs from the claim). The claim, and the comment of lines 584-586: with
  \<open>prioritizePinnedReports\<close>, an accepted option that is pinned but is an archived default
  room is not placed into the pinned array. Here the pinned, archived \<open>#admins\<close> room, the
  last of the two candidates, is placed into the pinned array and comes back first.
\<close>

theorem pinned_archived_default_room:
  "ReportUtils_isDefaultRoom exampleDeps archivedAdmins
   \<and> ReportUtils_isArchivedRoom exampleDeps archivedAdmins
   \<and> r_isPinned archivedAdmins \<and> prioritizePinnedReports sidebarConfig
   \<and> map o_reportID
        (candidatesOf exampleDeps exampleState [archivedAdmins, chat ''1'' [''dan@x.com''] 10]
           examplePersons ''0'' sidebarConfig) = [Some ''1'', Some ''9'']
   \<and> map o_reportID
        (pinnedReportOptions (selectionOf exampleState sidebarConfig
           (candidatesOf exampleDeps exampleState [archivedAdmins, chat ''1'' [''dan@x.com''] 10]
              examplePersons ''0'' sidebarConfig))) = [Some ''9'']
   \<and> (case getOptions exampleDeps exampleState [archivedAdmins, chat ''1'' [''dan@x.com''] 10]
               examplePersons ''0'' sidebarConfig of
         Inl e \<Rightarrow> [] | Inr res \<Rightarrow> map o_reportID (recentReports res)) = [Some ''9'', Some ''1'']"
  by code_simp

end
